theory Spec2Isabelle
  imports Complex_Main
begin

section \<open>The NoC placement cost engine of \<^verbatim>\<open>vpr/src/place/noc_place_utils.cpp\<close>\<close>

text \<open>
  The development embeds the cost kernels, the transactional cost handler
  (\<^verbatim>\<open>NocCostHandler\<close>) and the router-swap proposer of the placer.

  Conventions of the embedding.
  \<^item> The strongly typed dense ids of the source (\<^verbatim>\<open>NocLinkId\<close>, \<^verbatim>\<open>NocRouterId\<close>,
    \<^verbatim>\<open>NocTrafficFlowId\<close>, \<^verbatim>\<open>ClusterBlockId\<close>) are natural numbers.
  \<^item> A \<^verbatim>\<open>double\<close> is a real number and its arithmetic is exact, with two
    exceptions.  Where the source divides by a value that may be zero and the
    result matters, the IEEE quotient is written out (see \<open>ieee_quotient\<close>).
    Where a statement rests on the rounding of the additions on the link usage
    table, the functions that carry the rounding are used (see
    \<open>update_traffic_flow_link_usage_double\<close>).
  \<^item> A \<^verbatim>\<open>vtr::vector\<close> keyed by a dense id is a total function on ids: the
    source indexes these tables without a check and relies on the ids being in
    range, and so does the model.  A \<^verbatim>\<open>std::vector\<close> is a list.  Reading \<^verbatim>\<open>v[0]\<close>
    of an empty \<^verbatim>\<open>std::vector\<close> has no defined behaviour in the source and is the
    error \<open>OutOfBounds\<close> here; a failed \<^verbatim>\<open>VTR_ASSERT\<close> is the error
    \<open>AssertionFailed\<close>.  \<^verbatim>\<open>VTR_ASSERT_SAFE\<close> is compiled out at the default
    assertion level and is not modelled.
  \<^item> The process-wide context \<^verbatim>\<open>g_vpr_ctx\<close> is an explicit argument.
\<close>

subsection \<open>Identifiers, errors and \<^verbatim>\<open>std::min\<close> / \<^verbatim>\<open>std::max\<close>\<close>

type_synonym NocLinkId = nat
type_synonym NocRouterId = nat
type_synonym NocTrafficFlowId = nat
type_synonym ClusterBlockId = nat

datatype noc_error = OutOfBounds | AssertionFailed

text \<open>\<^verbatim>\<open>std::max(a, b)\<close> is \<^verbatim>\<open>(a < b) ? b : a\<close> and \<^verbatim>\<open>std::min(a, b)\<close> is \<^verbatim>\<open>(b < a) ? b : a\<close>.\<close>

definition std_max :: "real \<Rightarrow> real \<Rightarrow> real" where
  "std_max a b = (if a < b then b else a)"

definition std_min :: "real \<Rightarrow> real \<Rightarrow> real" where
  "std_min a b = (if b < a then b else a)"

subsection \<open>The NoC model and the traffic flows\<close>

record t_pl_loc =
  loc_x :: int
  loc_y :: int
  loc_sub_tile :: int
  loc_layer :: int

record t_block_loc =
  loc :: t_pl_loc
  is_fixed :: bool

record NocLink =
  get_link_id :: NocLinkId
  get_source_router :: NocRouterId
  get_sink_router :: NocRouterId
  get_bandwidth :: real
  get_latency :: real

record NocRouter =
  get_router_id :: NocRouterId
  get_router_latency :: real

text \<open>
  Modelled from the spec: the class \<^verbatim>\<open>NocStorage\<close> (the read-only NoC model) is
  declared in a header that is not among the sources.  The spec describes it as
  the fixed topology: routers and links keyed by dense ids, a default link and
  router latency, and two booleans selecting the per-entity latencies.  The link
  stored under id \<open>l\<close> reports \<open>l\<close> as its own id (the source converts a
  \<^verbatim>\<open>NocLink\<close> to its \<^verbatim>\<open>NocLinkId\<close> when it indexes a table by a link).
\<close>

record NocStorage =
  link_source_router :: "NocLinkId \<Rightarrow> NocRouterId"
  link_sink_router :: "NocLinkId \<Rightarrow> NocRouterId"
  link_bandwidth :: "NocLinkId \<Rightarrow> real"
  link_latency :: "NocLinkId \<Rightarrow> real"
  router_latency :: "NocRouterId \<Rightarrow> real"
  get_number_of_noc_links :: nat
  get_detailed_link_latency :: bool
  get_detailed_router_latency :: bool
  get_noc_link_latency :: real
  get_noc_router_latency :: real
  get_router_at_grid_location :: "t_pl_loc \<Rightarrow> NocRouterId"

definition get_single_noc_link :: "NocStorage \<Rightarrow> NocLinkId \<Rightarrow> NocLink" where
  "get_single_noc_link noc_model l =
     \<lparr>get_link_id = l,
      get_source_router = link_source_router noc_model l,
      get_sink_router = link_sink_router noc_model l,
      get_bandwidth = link_bandwidth noc_model l,
      get_latency = link_latency noc_model l\<rparr>"

definition get_single_noc_router :: "NocStorage \<Rightarrow> NocRouterId \<Rightarrow> NocRouter" where
  "get_single_noc_router noc_model r =
     \<lparr>get_router_id = r, get_router_latency = router_latency noc_model r\<rparr>"

text \<open>\<^verbatim>\<open>get_noc_links(ids)\<close>: the links of a collection of ids, in its order.\<close>

definition get_noc_links_of :: "NocStorage \<Rightarrow> NocLinkId list \<Rightarrow> NocLink list" where
  "get_noc_links_of noc_model ids = map (get_single_noc_link noc_model) ids"


record t_noc_traffic_flow =
  source_router_cluster_id :: ClusterBlockId
  sink_router_cluster_id :: ClusterBlockId
  traffic_flow_bandwidth :: real
  max_traffic_flow_latency :: real
  traffic_flow_priority :: int

subsection \<open>Cost kernels\<close>

definition calculate_traffic_flow_aggregate_bandwidth_cost ::
  "NocLinkId list \<Rightarrow> t_noc_traffic_flow \<Rightarrow> real" where
  "calculate_traffic_flow_aggregate_bandwidth_cost traffic_flow_route traffic_flow_info =
     (let num_of_links_in_traffic_flow = length traffic_flow_route
      in of_int (traffic_flow_priority traffic_flow_info)
           * traffic_flow_bandwidth traffic_flow_info
           * real num_of_links_in_traffic_flow)"

text \<open>The link part of the latency: the first \<^verbatim>\<open>if\<close> of the kernel.\<close>

definition noc_link_latency_component :: "NocLinkId list \<Rightarrow> NocStorage \<Rightarrow> real" where
  "noc_link_latency_component traffic_flow_route noc_model =
     (if get_detailed_link_latency noc_model
      then fold (\<lambda>link acc. acc + get_latency link)
             (get_noc_links_of noc_model traffic_flow_route) 0
      else get_noc_link_latency noc_model * real (length traffic_flow_route))"

text \<open>
  The router part: with detailed router latencies the source reads
  \<^verbatim>\<open>traffic_flow_route[0]\<close> without a check, which is out of bounds on the empty
  route.
\<close>

definition noc_router_latency_component ::
  "NocLinkId list \<Rightarrow> NocStorage \<Rightarrow> noc_error + real" where
  "noc_router_latency_component traffic_flow_route noc_model =
     (if get_detailed_router_latency noc_model
      then (case traffic_flow_route of
              [] \<Rightarrow> Inl OutOfBounds
            | first_noc_link_id # _ \<Rightarrow>
                (let first_noc_link = get_single_noc_link noc_model first_noc_link_id;
                     source_noc_router_id = get_source_router first_noc_link;
                     source_noc_router = get_single_noc_router noc_model source_noc_router_id
                 in Inr (fold (\<lambda>link acc. acc + get_router_latency
                                 (get_single_noc_router noc_model (get_sink_router link)))
                           (get_noc_links_of noc_model traffic_flow_route)
                           (get_router_latency source_noc_router))))
      else Inr (get_noc_router_latency noc_model * (real (length traffic_flow_route) + 1)))"

definition calculate_traffic_flow_latency_cost ::
  "NocLinkId list \<Rightarrow> NocStorage \<Rightarrow> t_noc_traffic_flow \<Rightarrow> noc_error + (real \<times> real)" where
  "calculate_traffic_flow_latency_cost traffic_flow_route noc_model traffic_flow_info =
     (let link_component = noc_link_latency_component traffic_flow_route noc_model
      in case noc_router_latency_component traffic_flow_route noc_model of
           Inl e \<Rightarrow> Inl e
         | Inr router_component \<Rightarrow>
             (let latency = router_component + link_component;
                  max_latency = max_traffic_flow_latency traffic_flow_info;
                  latency_overrun = std_max (latency - max_latency) 0
              in Inr (latency * of_int (traffic_flow_priority traffic_flow_info),
                      latency_overrun * of_int (traffic_flow_priority traffic_flow_info))))"

subsection \<open>The state owned by \<^verbatim>\<open>NocCostHandler\<close> and its context\<close>

text \<open>
  \<^verbatim>\<open>TrafficFlowPlaceCost\<close> holds the three cached cost terms of one flow and
  \<^verbatim>\<open>NocCostTerms\<close> the four aggregate terms; the fields of the former carry the
  prefix \<open>flow_\<close> because record fields share one name space.
\<close>

record TrafficFlowPlaceCost =
  flow_aggregate_bandwidth :: real
  flow_latency :: real
  flow_latency_overrun :: real

record NocCostTerms =
  aggregate_bandwidth :: real
  latency :: real
  latency_overrun :: real
  congestion :: real

record t_placer_costs =
  noc_cost_terms :: NocCostTerms
  noc_cost_norm_factors :: NocCostTerms

text \<open>
  Modelled from the spec: the constants of \<^verbatim>\<open>noc_place_utils.h\<close> (the sentinel
  \<^verbatim>\<open>INVALID_NOC_COST_TERM\<close> and the bounds \<^verbatim>\<open>MAX_INV_*\<close> of the normalisation
  factors) are not among the sources; they are parameters.
\<close>

record noc_place_constants =
  INVALID_NOC_COST_TERM :: real
  MAX_INV_NOC_AGGREGATE_BANDWIDTH_COST :: real
  MAX_INV_NOC_LATENCY_COST :: real
  MAX_INV_NOC_CONGESTION_COST :: real

text \<open>
  Modelled from the spec: the traffic-flow storage \<^verbatim>\<open>NocTrafficFlows\<close> is not among
  the sources.  The spec lists what it provides: the flow count, the iteration
  over all flow ids, the flow of an id, whether a cluster is a router cluster
  with flows, the ordered flows associated to a cluster, and the ordered router
  clusters.  By the comment in \<^verbatim>\<open>initial_noc_routing\<close> the flow ids range from 0 to
  the number of flows.
\<close>

record NocTrafficFlows =
  get_number_of_traffic_flows :: nat
  get_single_noc_traffic_flow :: "NocTrafficFlowId \<Rightarrow> t_noc_traffic_flow"
  check_if_cluster_block_has_traffic_flows :: "ClusterBlockId \<Rightarrow> bool"
  get_traffic_flows_associated_to_router_block :: "ClusterBlockId \<Rightarrow> NocTrafficFlowId list"
  get_router_clusters_in_netlist :: "ClusterBlockId list"


text \<open>
  Modelled from the spec: the routing collaborator \<^verbatim>\<open>NocRouting::route_flow(src, sink,
  flow_id, out_route, model)\<close> overwrites \<^verbatim>\<open>out_route\<close>.  It is a parameter: a
  function of its arguments, among them the previous content of \<^verbatim>\<open>out_route\<close>,
  that yields the new content.
\<close>

type_synonym NocRouting =
  "NocRouterId \<Rightarrow> NocRouterId \<Rightarrow> NocTrafficFlowId \<Rightarrow> NocLinkId list \<Rightarrow> NocStorage
     \<Rightarrow> NocLinkId list"

record NocContext =
  noc_model :: NocStorage
  noc_traffic_flows_storage :: NocTrafficFlows
  noc_flows_router :: NocRouting

record NocCostHandler =
  block_locs_ref :: "ClusterBlockId \<Rightarrow> t_block_loc"
  traffic_flow_costs :: "NocTrafficFlowId \<Rightarrow> TrafficFlowPlaceCost"
  proposed_traffic_flow_costs :: "NocTrafficFlowId \<Rightarrow> TrafficFlowPlaceCost"
  traffic_flow_routes :: "NocTrafficFlowId \<Rightarrow> NocLinkId list"
  traffic_flow_routes_backup :: "NocTrafficFlowId \<Rightarrow> NocLinkId list"
  link_congestion_costs :: "NocLinkId \<Rightarrow> real"
  proposed_link_congestion_costs :: "NocLinkId \<Rightarrow> real"
  link_bandwidth_usages :: "NocLinkId \<Rightarrow> real"
  affected_traffic_flows :: "NocTrafficFlowId list"
  affected_noc_links :: "NocLinkId list"

text \<open>
  \<^verbatim>\<open>affected_noc_links\<close> is a \<^verbatim>\<open>std::unordered_set\<close>: a list that \<open>unordered_set_insert\<close>
  keeps free of duplicates; its iteration order, unspecified in the source, is
  the order of insertion.
\<close>

definition unordered_set_insert :: "nat \<Rightarrow> nat list \<Rightarrow> nat list" where
  "unordered_set_insert v s = (if v \<in> set s then s else s @ [v])"

record t_pl_moved_block =
  block_num :: ClusterBlockId
  old_loc :: t_pl_loc
  new_loc :: t_pl_loc

record t_pl_blocks_to_be_moved =
  moved_blocks :: "t_pl_moved_block list"

subsection \<open>Routing and bandwidth bookkeeping\<close>

text \<open>
  The sum and the product below are exact.  In the source they are operations
  on \<^verbatim>\<open>double\<close>s; \<open>update_traffic_flow_link_usage_double\<close> further down carries their
  rounding, for the statements that rest on it.
\<close>

definition update_traffic_flow_link_usage ::
  "NocLinkId list \<Rightarrow> int \<Rightarrow> real \<Rightarrow> NocCostHandler \<Rightarrow> NocCostHandler" where
  "update_traffic_flow_link_usage traffic_flow_route inc_or_dec traffic_flow_bandwidth_v h =
     fold (\<lambda>link_in_route_id h.
             let curr_link_bandwidth_usage = link_bandwidth_usages h link_in_route_id
             in h\<lparr>link_bandwidth_usages := (link_bandwidth_usages h)
                    (link_in_route_id := curr_link_bandwidth_usage
                       + of_int inc_or_dec * traffic_flow_bandwidth_v)\<rparr>)
          traffic_flow_route h"

text \<open>
  \<^verbatim>\<open>route_traffic_flow\<close> routes into the slot \<^verbatim>\<open>traffic_flow_routes[id]\<close> and returns a
  reference to it: the caller reads the slot of the returned handler.
\<close>

definition route_traffic_flow ::
  "NocTrafficFlowId \<Rightarrow> NocContext \<Rightarrow> NocCostHandler \<Rightarrow> NocCostHandler" where
  "route_traffic_flow traffic_flow_id ctx h =
     (let curr_traffic_flow =
            get_single_noc_traffic_flow (noc_traffic_flows_storage ctx) traffic_flow_id;
          logical_source_router_block_id = source_router_cluster_id curr_traffic_flow;
          logical_sink_router_block_id = sink_router_cluster_id curr_traffic_flow;
          source_router_block_id = get_router_at_grid_location (noc_model ctx)
            (loc (block_locs_ref h logical_source_router_block_id));
          sink_router_block_id = get_router_at_grid_location (noc_model ctx)
            (loc (block_locs_ref h logical_sink_router_block_id))
      in h\<lparr>traffic_flow_routes := (traffic_flow_routes h)
             (traffic_flow_id := noc_flows_router ctx source_router_block_id
                sink_router_block_id traffic_flow_id (traffic_flow_routes h traffic_flow_id)
                (noc_model ctx))\<rparr>)"

text \<open>\<^verbatim>\<open>std::swap\<close> of the committed and the backup route slot of a flow.\<close>

definition swap_routes :: "NocTrafficFlowId \<Rightarrow> NocCostHandler \<Rightarrow> NocCostHandler" where
  "swap_routes traffic_flow_id h =
     h\<lparr>traffic_flow_routes := (traffic_flow_routes h)
          (traffic_flow_id := traffic_flow_routes_backup h traffic_flow_id),
       traffic_flow_routes_backup := (traffic_flow_routes_backup h)
          (traffic_flow_id := traffic_flow_routes h traffic_flow_id)\<rparr>"

definition re_route_traffic_flow ::
  "NocTrafficFlowId \<Rightarrow> NocContext \<Rightarrow> NocCostHandler \<Rightarrow> NocCostHandler" where
  "re_route_traffic_flow traffic_flow_id ctx h =
     (let curr_traffic_flow =
            get_single_noc_traffic_flow (noc_traffic_flows_storage ctx) traffic_flow_id;
          h1 = update_traffic_flow_link_usage (traffic_flow_routes h traffic_flow_id) (- 1)
                 (traffic_flow_bandwidth curr_traffic_flow) h;
          h2 = swap_routes traffic_flow_id h1;
          h3 = route_traffic_flow traffic_flow_id ctx h2
      in update_traffic_flow_link_usage (traffic_flow_routes h3 traffic_flow_id) 1
           (traffic_flow_bandwidth curr_traffic_flow) h3)"

text \<open>\<^verbatim>\<open>std::set_difference\<close> on two sorted ranges.\<close>

fun set_difference :: "nat list \<Rightarrow> nat list \<Rightarrow> nat list" where
  "set_difference [] ys = []"
| "set_difference (x # xs) [] = x # xs"
| "set_difference (x # xs) (y # ys) =
     (if x < y then x # set_difference xs (y # ys)
      else if y < x then set_difference (x # xs) ys
      else set_difference xs ys)"

definition find_affected_links_by_flow_reroute ::
  "NocLinkId list \<Rightarrow> NocLinkId list \<Rightarrow> NocLinkId list" where
  "find_affected_links_by_flow_reroute prev_links curr_links =
     (let prev_sorted = sort prev_links;
          curr_sorted = sort curr_links
      in set_difference prev_sorted curr_sorted @ set_difference curr_sorted prev_sorted)"

text \<open>
  The body of the loop of \<^verbatim>\<open>re_route_associated_traffic_flows\<close> over the flows of one
  moved router block; \<open>updated_traffic_flows\<close> is the caller's set of flows
  already re-routed in this transaction.
\<close>

definition re_route_associated_step ::
  "NocContext \<Rightarrow> NocTrafficFlowId \<Rightarrow> NocCostHandler \<times> NocTrafficFlowId set
     \<Rightarrow> NocCostHandler \<times> NocTrafficFlowId set" where
  "re_route_associated_step ctx traffic_flow_id st =
     (case st of (h, updated_traffic_flows) \<Rightarrow>
        if traffic_flow_id \<notin> updated_traffic_flows
        then (let prev_traffic_flow_links = traffic_flow_routes h traffic_flow_id;
                  h1 = re_route_traffic_flow traffic_flow_id ctx h;
                  updated' = insert traffic_flow_id updated_traffic_flows;
                  curr_traffic_flow_links = traffic_flow_routes h1 traffic_flow_id;
                  unique_links = find_affected_links_by_flow_reroute
                                   prev_traffic_flow_links curr_traffic_flow_links;
                  h2 = h1\<lparr>affected_noc_links :=
                             fold unordered_set_insert unique_links (affected_noc_links h1)\<rparr>;
                  h3 = h2\<lparr>affected_traffic_flows :=
                             affected_traffic_flows h2 @ [traffic_flow_id]\<rparr>
              in (h3, updated'))
        else (h, updated_traffic_flows))"

definition re_route_associated_traffic_flows ::
  "ClusterBlockId \<Rightarrow> NocContext \<Rightarrow> NocCostHandler \<times> NocTrafficFlowId set
     \<Rightarrow> NocCostHandler \<times> NocTrafficFlowId set" where
  "re_route_associated_traffic_flows moved_block_router_id ctx st =
     (let assoc_traffic_flows = get_traffic_flows_associated_to_router_block
            (noc_traffic_flows_storage ctx) moved_block_router_id
      in fold (re_route_associated_step ctx) assoc_traffic_flows st)"

subsection \<open>Cost caches: initial computation\<close>

text \<open>
  The congestion of a link divides by its capacity.  For a capacity of zero the
  IEEE quotient is infinite or not a number, whereas the quotient of reals below
  is zero; the statements about this kernel do not rest on its value there.
\<close>

definition get_link_congestion_cost :: "NocCostHandler \<Rightarrow> NocLink \<Rightarrow> real" where
  "get_link_congestion_cost h link =
     (let bandwidth = get_bandwidth link;
          bandwidth_usage = link_bandwidth_usages h (get_link_id link);
          congested_bandwidth = std_max (bandwidth_usage - bandwidth) 0;
          congested_bw_ratio = congested_bandwidth / bandwidth
      in congested_bw_ratio)"







subsection \<open>Initial routing\<close>




subsection \<open>The transaction: evaluate, commit, revert\<close>

text \<open>The loop over the moved blocks that re-routes the flows of the router blocks.\<close>

definition re_route_moved_blocks ::
  "t_pl_blocks_to_be_moved \<Rightarrow> NocContext \<Rightarrow> NocCostHandler \<times> NocTrafficFlowId set
     \<Rightarrow> NocCostHandler \<times> NocTrafficFlowId set" where
  "re_route_moved_blocks blocks_affected ctx st =
     fold (\<lambda>block st.
             let blk = block_num block
             in if check_if_cluster_block_has_traffic_flows (noc_traffic_flows_storage ctx) blk
                then re_route_associated_traffic_flows blk ctx st
                else st)
          (moved_blocks blocks_affected) st"

text \<open>The loop over \<^verbatim>\<open>affected_traffic_flows\<close> that fills the proposed flow costs.\<close>

fun update_proposed_flow_costs ::
  "NocContext \<Rightarrow> NocTrafficFlowId list \<Rightarrow> NocCostHandler \<times> NocCostTerms
     \<Rightarrow> noc_error + (NocCostHandler \<times> NocCostTerms)" where
  "update_proposed_flow_costs ctx [] st = Inr st"
| "update_proposed_flow_costs ctx (traffic_flow_id # ids) (h, delta_c) =
     (let traffic_flow_route = traffic_flow_routes h traffic_flow_id;
          curr_traffic_flow = get_single_noc_traffic_flow
            (noc_traffic_flows_storage ctx) traffic_flow_id;
          agg = calculate_traffic_flow_aggregate_bandwidth_cost
                  traffic_flow_route curr_traffic_flow
      in case calculate_traffic_flow_latency_cost traffic_flow_route (noc_model ctx)
                curr_traffic_flow of
           Inl e \<Rightarrow> Inl e
         | Inr (lat, overrun) \<Rightarrow>
             (let h' = h\<lparr>proposed_traffic_flow_costs := (proposed_traffic_flow_costs h)
                          (traffic_flow_id := (proposed_traffic_flow_costs h traffic_flow_id)
                             \<lparr>flow_aggregate_bandwidth := agg,
                              flow_latency := lat,
                              flow_latency_overrun := overrun\<rparr>)\<rparr>;
                  proposed = proposed_traffic_flow_costs h' traffic_flow_id;
                  committed = traffic_flow_costs h' traffic_flow_id
              in update_proposed_flow_costs ctx ids
                   (h', delta_c
                      \<lparr>aggregate_bandwidth := aggregate_bandwidth delta_c
                         + (flow_aggregate_bandwidth proposed - flow_aggregate_bandwidth committed),
                       latency := latency delta_c
                         + (flow_latency proposed - flow_latency committed),
                       latency_overrun := latency_overrun delta_c
                         + (flow_latency_overrun proposed - flow_latency_overrun committed)\<rparr>)))"

text \<open>
  The loop over the affected links that fills the proposed congestion costs, and
  its body.
\<close>

definition update_proposed_link_cost_step ::
  "NocLink \<Rightarrow> NocCostHandler \<times> NocCostTerms \<Rightarrow> NocCostHandler \<times> NocCostTerms" where
  "update_proposed_link_cost_step link st =
     (case st of (h, delta_c) \<Rightarrow>
        let h' = h\<lparr>proposed_link_congestion_costs := (proposed_link_congestion_costs h)
                     (get_link_id link := get_link_congestion_cost h link)\<rparr>
        in (h', delta_c\<lparr>congestion := congestion delta_c
                  + (proposed_link_congestion_costs h' (get_link_id link)
                     - link_congestion_costs h' (get_link_id link))\<rparr>))"

definition update_proposed_link_costs ::
  "NocContext \<Rightarrow> NocCostHandler \<times> NocCostTerms \<Rightarrow> NocCostHandler \<times> NocCostTerms" where
  "update_proposed_link_costs ctx st =
     fold update_proposed_link_cost_step
       (get_noc_links_of (noc_model ctx) (affected_noc_links (fst st))) st"

definition find_affected_noc_routers_and_update_noc_costs ::
  "t_pl_blocks_to_be_moved \<Rightarrow> NocCostTerms \<Rightarrow> NocContext \<Rightarrow> NocCostHandler
     \<Rightarrow> noc_error + (NocCostHandler \<times> NocCostTerms)" where
  "find_affected_noc_routers_and_update_noc_costs blocks_affected delta_c ctx h =
     (let h0 = h\<lparr>affected_traffic_flows := [], affected_noc_links := []\<rparr>;
          h1 = fst (re_route_moved_blocks blocks_affected ctx (h0, {}))
      in case update_proposed_flow_costs ctx (affected_traffic_flows h1) (h1, delta_c) of
           Inl e \<Rightarrow> Inl e
         | Inr st \<Rightarrow> Inr (update_proposed_link_costs ctx st))"

text \<open>The bodies of the two loops of \<^verbatim>\<open>commit_noc_costs\<close>.\<close>

definition commit_traffic_flow_cost ::
  "noc_place_constants \<Rightarrow> NocTrafficFlowId \<Rightarrow> NocCostHandler \<Rightarrow> NocCostHandler" where
  "commit_traffic_flow_cost K traffic_flow_id h =
     (let h' = h\<lparr>traffic_flow_costs := (traffic_flow_costs h)
                  (traffic_flow_id := proposed_traffic_flow_costs h traffic_flow_id)\<rparr>
      in h'\<lparr>proposed_traffic_flow_costs := (proposed_traffic_flow_costs h')
             (traffic_flow_id := (proposed_traffic_flow_costs h' traffic_flow_id)
                \<lparr>flow_aggregate_bandwidth := INVALID_NOC_COST_TERM K,
                 flow_latency := INVALID_NOC_COST_TERM K,
                 flow_latency_overrun := INVALID_NOC_COST_TERM K\<rparr>)\<rparr>)"

definition commit_link_congestion_cost ::
  "noc_place_constants \<Rightarrow> NocLink \<Rightarrow> NocCostHandler \<Rightarrow> NocCostHandler" where
  "commit_link_congestion_cost K link h =
     (let h' = h\<lparr>link_congestion_costs := (link_congestion_costs h)
                  (get_link_id link := proposed_link_congestion_costs h (get_link_id link))\<rparr>
      in h'\<lparr>proposed_link_congestion_costs := (proposed_link_congestion_costs h')
             (get_link_id link := INVALID_NOC_COST_TERM K)\<rparr>)"

definition commit_noc_costs ::
  "noc_place_constants \<Rightarrow> NocContext \<Rightarrow> NocCostHandler \<Rightarrow> NocCostHandler" where
  "commit_noc_costs K ctx h =
     (let h1 = fold (commit_traffic_flow_cost K) (affected_traffic_flows h) h
      in fold (commit_link_congestion_cost K)
           (get_noc_links_of (noc_model ctx) (affected_noc_links h1)) h1)"



subsection \<open>The bandwidth bookkeeping in \<^verbatim>\<open>double\<close> arithmetic\<close>











subsection \<open>Normalisation factors\<close>

text \<open>
  \<^verbatim>\<open>1 / term\<close> is an IEEE division: for a zero term the quotient is plus infinity
  (HOL's \<open>1 / 0\<close> is \<open>0\<close>), and \<^verbatim>\<open>std::min\<close> of plus infinity and a finite bound is
  the bound.  The sign of a zero is not modelled: for \<^verbatim>\<open>-0.0\<close> the IEEE quotient is
  minus infinity.
\<close>

datatype ieee_quotient = Finite real | PlusInfinity

definition ieee_one_over :: "real \<Rightarrow> ieee_quotient" where
  "ieee_one_over v = (if v = 0 then PlusInfinity else Finite (1 / v))"

definition std_min_quotient :: "ieee_quotient \<Rightarrow> real \<Rightarrow> real" where
  "std_min_quotient q b = (case q of PlusInfinity \<Rightarrow> b | Finite a \<Rightarrow> std_min a b)"

definition update_noc_normalization_factors ::
  "noc_place_constants \<Rightarrow> t_placer_costs \<Rightarrow> t_placer_costs" where
  "update_noc_normalization_factors K costs =
     (let costs1 = costs\<lparr>noc_cost_norm_factors := (noc_cost_norm_factors costs)
            \<lparr>aggregate_bandwidth :=
               std_min_quotient (ieee_one_over (aggregate_bandwidth (noc_cost_terms costs)))
                 (MAX_INV_NOC_AGGREGATE_BANDWIDTH_COST K)\<rparr>\<rparr>;
          costs2 = costs1\<lparr>noc_cost_norm_factors := (noc_cost_norm_factors costs1)
            \<lparr>latency :=
               std_min_quotient (ieee_one_over (latency (noc_cost_terms costs1)))
                 (MAX_INV_NOC_LATENCY_COST K)\<rparr>\<rparr>;
          costs3 =
            (if latency_overrun (noc_cost_terms costs2) > 0
             then costs2\<lparr>noc_cost_norm_factors := (noc_cost_norm_factors costs2)
                    \<lparr>latency_overrun :=
                       std_min_quotient (ieee_one_over (latency_overrun (noc_cost_terms costs2)))
                         (MAX_INV_NOC_LATENCY_COST K)\<rparr>\<rparr>
             else costs2\<lparr>noc_cost_norm_factors := (noc_cost_norm_factors costs2)
                    \<lparr>latency_overrun := MAX_INV_NOC_LATENCY_COST K\<rparr>\<rparr>)
      in if congestion (noc_cost_terms costs3) > 0
         then costs3\<lparr>noc_cost_norm_factors := (noc_cost_norm_factors costs3)
                \<lparr>congestion :=
                   std_min_quotient (ieee_one_over (congestion (noc_cost_terms costs3)))
                     (MAX_INV_NOC_CONGESTION_COST K)\<rparr>\<rparr>
         else costs3\<lparr>noc_cost_norm_factors := (noc_cost_norm_factors costs3)
                \<lparr>congestion := MAX_INV_NOC_CONGESTION_COST K\<rparr>\<rparr>)"

subsection \<open>The router-swap proposer\<close>

datatype e_create_move = VALID | ABORT

record BlkLocRegistry =
  block_locs :: "ClusterBlockId \<Rightarrow> t_block_loc"

text \<open>
  Modelled from the spec: the collaborators of the proposer are not among the
  sources and are parameters.  \<open>irand\<close> is \<^verbatim>\<open>vtr::RngContainer::irand\<close> with the
  generator's state threaded; \<open>find_to_loc_uniform\<close> is the uniform-neighbourhood
  procedure of the generic placer, returning its verdict, the location it wrote
  to \<^verbatim>\<open>to\<close> and the generator; \<open>create_move\<close> returns its outcome and the
  \<^verbatim>\<open>blocks_affected\<close> it filled; \<open>default_t_pl_loc\<close> is a default-constructed
  \<^verbatim>\<open>t_pl_loc\<close>.  Logical and physical block types are natural numbers.
\<close>

record ('rng, 'macros) placer_collaborators =
  irand :: "'rng \<Rightarrow> int \<Rightarrow> int \<times> 'rng"
  block_type :: "ClusterBlockId \<Rightarrow> nat"
  get_physical_type :: "int \<times> int \<times> int \<Rightarrow> nat"
  is_tile_compatible :: "nat \<Rightarrow> nat \<Rightarrow> bool"
  default_t_pl_loc :: t_pl_loc
  find_to_loc_uniform ::
    "nat \<Rightarrow> real \<Rightarrow> t_pl_loc \<Rightarrow> t_pl_loc \<Rightarrow> ClusterBlockId \<Rightarrow> BlkLocRegistry \<Rightarrow> 'rng
       \<Rightarrow> bool \<times> t_pl_loc \<times> 'rng"
  create_move ::
    "t_pl_blocks_to_be_moved \<Rightarrow> ClusterBlockId \<Rightarrow> t_pl_loc \<Rightarrow> BlkLocRegistry \<Rightarrow> 'macros
       \<Rightarrow> e_create_move \<times> t_pl_blocks_to_be_moved"
  floorplan_legal :: "t_pl_blocks_to_be_moved \<Rightarrow> bool"

text \<open>
  \<^verbatim>\<open>select_random_router_cluster\<close> returns \<^verbatim>\<open>false\<close> (here \<open>None\<close>) or \<^verbatim>\<open>true\<close> with the
  selected block, its location and its type (here \<open>Some\<close>), and the generator.
\<close>

definition select_random_router_cluster ::
  "(ClusterBlockId \<Rightarrow> t_block_loc) \<Rightarrow> 'rng \<Rightarrow> ('rng, 'macros) placer_collaborators
     \<Rightarrow> NocContext \<Rightarrow> noc_error + ((ClusterBlockId \<times> t_pl_loc \<times> nat) option \<times> 'rng)" where
  "select_random_router_cluster block_locs_v rng env ctx =
     (let router_clusters = get_router_clusters_in_netlist (noc_traffic_flows_storage ctx)
      in if router_clusters = [] then Inr (None, rng)
         else
           (let number_of_router_blocks = int (length router_clusters)
            in case irand env rng (number_of_router_blocks - 1) of
                 (random_cluster_block_index, rng') \<Rightarrow>
                   if random_cluster_block_index < 0
                      \<or> number_of_router_blocks \<le> random_cluster_block_index
                   then Inl OutOfBounds
                   else
                     (let b_from = router_clusters ! nat random_cluster_block_index
                      in if is_fixed (block_locs_v b_from) then Inr (None, rng')
                         else
                           (let from_loc = loc (block_locs_v b_from);
                                cluster_from_type = block_type env b_from;
                                grid_from_type = get_physical_type env
                                  (loc_x from_loc, loc_y from_loc, loc_layer from_loc)
                            in if \<not> is_tile_compatible env grid_from_type cluster_from_type
                               then Inl AssertionFailed
                               else Inr (Some (b_from, from_loc, cluster_from_type), rng')))))"

definition propose_router_swap ::
  "t_pl_blocks_to_be_moved \<Rightarrow> real \<Rightarrow> BlkLocRegistry \<Rightarrow> 'macros \<Rightarrow> 'rng
     \<Rightarrow> ('rng, 'macros) placer_collaborators \<Rightarrow> NocContext
     \<Rightarrow> noc_error + (e_create_move \<times> t_pl_blocks_to_be_moved \<times> 'rng)" where
  "propose_router_swap blocks_affected rlim blk_loc_registry place_macros rng env ctx =
     (case select_random_router_cluster (block_locs blk_loc_registry) rng env ctx of
        Inl e \<Rightarrow> Inl e
      | Inr (None, rng1) \<Rightarrow> Inr (ABORT, blocks_affected, rng1)
      | Inr (Some (b_from, from_loc, cluster_from_type), rng1) \<Rightarrow>
          (let to0 = (default_t_pl_loc env)\<lparr>loc_layer := loc_layer from_loc\<rparr>
           in case find_to_loc_uniform env cluster_from_type rlim from_loc to0 b_from
                     blk_loc_registry rng1 of
                (found, to_loc, rng2) \<Rightarrow>
                  if \<not> found then Inr (ABORT, blocks_affected, rng2)
                  else
                    (case create_move env blocks_affected b_from to_loc blk_loc_registry
                            place_macros of
                       (create_move_outcome, blocks_affected') \<Rightarrow>
                         if \<not> floorplan_legal env blocks_affected'
                         then Inr (ABORT, blocks_affected', rng2)
                         else Inr (create_move_outcome, blocks_affected', rng2))))"

section \<open>Notions used in the statements\<close>

subsection \<open>The latency of a route, as the specification words it\<close>

text \<open>
  The specification describes the unweighted latency of a route as the sum of a
  link part and a router part: with detailed link latencies the sum of the
  latencies of the route's links, otherwise the default link latency times the
  number of links; with detailed router latencies the latency of the source
  router plus that of the sink router of every link, otherwise the default
  router latency times the number of links plus one.
\<close>

definition spec_link_latency :: "NocLinkId list \<Rightarrow> NocStorage \<Rightarrow> real" where
  "spec_link_latency route m =
     (if get_detailed_link_latency m then (\<Sum>l\<leftarrow>route. link_latency m l)
      else get_noc_link_latency m * real (length route))"

definition spec_router_latency :: "NocLinkId list \<Rightarrow> NocStorage \<Rightarrow> real" where
  "spec_router_latency route m =
     (if get_detailed_router_latency m
      then router_latency m (link_source_router m (hd route))
           + (\<Sum>l\<leftarrow>route. router_latency m (link_sink_router m l))
      else get_noc_router_latency m * (real (length route) + 1))"

definition spec_route_latency :: "NocLinkId list \<Rightarrow> NocStorage \<Rightarrow> real" where
  "spec_route_latency route m = spec_link_latency route m + spec_router_latency route m"

subsection \<open>The flows a transaction touches\<close>

text \<open>
  \<open>flow_bandwidth\<close> abbreviates the bandwidth of a flow of the storage; \<open>routed\<close> is
  the route the collaborator returns for a flow when the blocks are at \<open>locs\<close> and
  the output vector holds \<open>out_route\<close>.
\<close>

definition flow_bandwidth :: "NocContext \<Rightarrow> NocTrafficFlowId \<Rightarrow> real" where
  "flow_bandwidth ctx f =
     traffic_flow_bandwidth (get_single_noc_traffic_flow (noc_traffic_flows_storage ctx) f)"

definition routed ::
  "NocContext \<Rightarrow> (ClusterBlockId \<Rightarrow> t_block_loc) \<Rightarrow> NocTrafficFlowId \<Rightarrow> NocLinkId list
     \<Rightarrow> NocLinkId list" where
  "routed ctx locs f out_route =
     (let flow = get_single_noc_traffic_flow (noc_traffic_flows_storage ctx) f
      in noc_flows_router ctx
           (get_router_at_grid_location (noc_model ctx) (loc (locs (source_router_cluster_id flow))))
           (get_router_at_grid_location (noc_model ctx) (loc (locs (sink_router_cluster_id flow))))
           f out_route (noc_model ctx))"

text \<open>
  \<open>fresh fs seen\<close> keeps the first occurrence of every flow of \<open>fs\<close> that is not in
  \<open>seen\<close>: the flows a loop guarded by the set of processed flows acts on.
  \<open>associated_flows_of_moved\<close> lists the flows associated to the moved router
  blocks, in the order of the two nested loops.
\<close>

fun fresh :: "nat list \<Rightarrow> nat set \<Rightarrow> nat list" where
  "fresh [] seen = []"
| "fresh (f # fs) seen = (if f \<in> seen then fresh fs seen else f # fresh fs (insert f seen))"

definition associated_flows_of_moved ::
  "NocContext \<Rightarrow> t_pl_blocks_to_be_moved \<Rightarrow> NocTrafficFlowId list" where
  "associated_flows_of_moved ctx blocks_affected =
     concat (map (\<lambda>block. get_traffic_flows_associated_to_router_block
                             (noc_traffic_flows_storage ctx) (block_num block))
               (filter (\<lambda>block. check_if_cluster_block_has_traffic_flows
                                   (noc_traffic_flows_storage ctx) (block_num block))
                  (moved_blocks blocks_affected)))"

text \<open>
  One guarded iteration of the evaluation and of the revert, for a flow not yet
  processed; \<open>re_routed\<close> is the handler after the re-routing loop of the
  evaluation.
\<close>

definition re_route_core :: "NocContext \<Rightarrow> NocTrafficFlowId \<Rightarrow> NocCostHandler \<Rightarrow> NocCostHandler" where
  "re_route_core ctx f h = fst (re_route_associated_step ctx f (h, {}))"


definition re_routed :: "NocContext \<Rightarrow> t_pl_blocks_to_be_moved \<Rightarrow> NocCostHandler \<Rightarrow> NocCostHandler" where
  "re_routed ctx blocks h =
     fold (re_route_core ctx) (fresh (associated_flows_of_moved ctx blocks) {})
       (h\<lparr>affected_traffic_flows := [], affected_noc_links := []\<rparr>)"




subsection \<open>The route the initial routing adopts\<close>

text \<open>
  The route \<open>initial_noc_routing\<close> adopts for a flow: the seed route when seed
  routes are given, otherwise the route of the collaborator, called with the
  committed slot of the flow as output vector.
\<close>

definition adopted_route ::
  "NocLinkId list list \<Rightarrow> NocContext \<Rightarrow> NocCostHandler \<Rightarrow> NocTrafficFlowId \<Rightarrow> NocLinkId list" where
  "adopted_route new_traffic_flow_routes ctx h f =
     (if new_traffic_flow_routes = []
      then routed ctx (block_locs_ref h) f (traffic_flow_routes h f)
      else new_traffic_flow_routes ! f)"

subsection \<open>The invalid cost triple\<close>

text \<open>The per-flow cost whose three terms are the sentinel.\<close>

definition invalid_flow_cost :: "noc_place_constants \<Rightarrow> TrafficFlowPlaceCost" where
  "invalid_flow_cost K =
     \<lparr>flow_aggregate_bandwidth = INVALID_NOC_COST_TERM K,
      flow_latency = INVALID_NOC_COST_TERM K,
      flow_latency_overrun = INVALID_NOC_COST_TERM K\<rparr>"

subsection \<open>A small NoC: three routers in a line\<close>

text \<open>
  Routers 0, 1, 2 sit at \<open>x = 0, 1, 2\<close>; links 0 and 1 run from router 0 to 1
  and from 1 to 2, links 2 and 3 from 1 to 0 and from 2 to 1.  One flow runs
  from cluster 0 to cluster 1.  The handler describes the state after the two
  clusters, first placed on routers 0 and 1, have been swapped and before the
  move is evaluated.
\<close>

definition ex_noc_model :: NocStorage where
  "ex_noc_model =
     \<lparr>link_source_router = (\<lambda>l. if l = 0 then 0 else if l = 1 then 1 else if l = 2 then 1 else 2),
      link_sink_router = (\<lambda>l. if l = 0 then 1 else if l = 1 then 2 else if l = 2 then 0 else 1),
      link_bandwidth = (\<lambda>l. 4),
      link_latency = (\<lambda>l. 2 + real l),
      router_latency = (\<lambda>r. 1 + real r),
      get_number_of_noc_links = 4,
      get_detailed_link_latency = False,
      get_detailed_router_latency = False,
      get_noc_link_latency = 2,
      get_noc_router_latency = 1,
      get_router_at_grid_location = (\<lambda>p. nat (loc_x p))\<rparr>"

definition ex_noc_model_detailed :: NocStorage where
  "ex_noc_model_detailed =
     ex_noc_model\<lparr>get_detailed_link_latency := True, get_detailed_router_latency := True\<rparr>"

definition ex_flow :: t_noc_traffic_flow where
  "ex_flow = \<lparr>source_router_cluster_id = 0, sink_router_cluster_id = 1,
              traffic_flow_bandwidth = 5, max_traffic_flow_latency = 5,
              traffic_flow_priority = 2\<rparr>"

definition ex_storage :: NocTrafficFlows where
  "ex_storage =
     \<lparr>get_number_of_traffic_flows = 1,
      get_single_noc_traffic_flow = (\<lambda>f. ex_flow),
      check_if_cluster_block_has_traffic_flows = (\<lambda>b. b < 2),
      get_traffic_flows_associated_to_router_block = (\<lambda>b. if b < 2 then [0] else []),
      get_router_clusters_in_netlist = [0, 1]\<rparr>"

definition ex_router :: NocRouting where
  "ex_router src snk f out_route m =
     (if src = 0 \<and> snk = 1 then [0]
      else if src = 1 \<and> snk = 2 then [1]
      else if src = 0 \<and> snk = 2 then [0, 1]
      else if src = 1 \<and> snk = 0 then [2]
      else if src = 2 \<and> snk = 1 then [3]
      else if src = 2 \<and> snk = 0 then [3, 2]
      else [])"

definition ex_ctx :: NocContext where
  "ex_ctx = \<lparr>noc_model = ex_noc_model, noc_traffic_flows_storage = ex_storage,
             noc_flows_router = ex_router\<rparr>"

definition ex_loc :: "int \<Rightarrow> t_pl_loc" where
  "ex_loc v = \<lparr>loc_x = v, loc_y = 0, loc_sub_tile = 0, loc_layer = 0\<rparr>"

definition ex_handler :: NocCostHandler where
  "ex_handler =
     \<lparr>block_locs_ref = (\<lambda>b. \<lparr>loc = ex_loc (if b = 0 then 2 else 0), is_fixed = False\<rparr>),
      traffic_flow_costs = (\<lambda>f. \<lparr>flow_aggregate_bandwidth = 10, flow_latency = 8,
                                 flow_latency_overrun = 0\<rparr>),
      proposed_traffic_flow_costs = (\<lambda>f. \<lparr>flow_aggregate_bandwidth = - 1, flow_latency = - 1,
                                 flow_latency_overrun = - 1\<rparr>),
      traffic_flow_routes = (\<lambda>f. if f = 0 then [0] else []),
      traffic_flow_routes_backup = (\<lambda>f. []),
      link_congestion_costs = (\<lambda>l. if l = 0 then 1 / 4 else 0),
      proposed_link_congestion_costs = (\<lambda>l. - 1),
      link_bandwidth_usages = (\<lambda>l. if l = 0 then 5 else 0),
      affected_traffic_flows = [],
      affected_noc_links = []\<rparr>"

definition ex_blocks :: t_pl_blocks_to_be_moved where
  "ex_blocks = \<lparr>moved_blocks =
     [\<lparr>block_num = 0, old_loc = ex_loc 0, new_loc = ex_loc 2\<rparr>,
      \<lparr>block_num = 1, old_loc = ex_loc 1, new_loc = ex_loc 0\<rparr>]\<rparr>"

definition ex_delta :: NocCostTerms where
  "ex_delta = \<lparr>aggregate_bandwidth = 0, latency = 0, latency_overrun = 0, congestion = 0\<rparr>"

text \<open>
  The constants, the handler after the evaluation of the move and the cost terms
  it returns.
\<close>

definition ex_constants :: noc_place_constants where
  "ex_constants = \<lparr>INVALID_NOC_COST_TERM = - 1, MAX_INV_NOC_AGGREGATE_BANDWIDTH_COST = 1,
     MAX_INV_NOC_LATENCY_COST = 1000000000000, MAX_INV_NOC_CONGESTION_COST = 1000000000000\<rparr>"

definition ex_evaluated :: NocCostHandler where
  "ex_evaluated =
     ex_handler
       \<lparr>proposed_traffic_flow_costs :=
          (\<lambda>f. if f = 0 then \<lparr>flow_aggregate_bandwidth = 20, flow_latency = 14,
                                flow_latency_overrun = 4\<rparr>
               else \<lparr>flow_aggregate_bandwidth = - 1, flow_latency = - 1,
                     flow_latency_overrun = - 1\<rparr>),
        traffic_flow_routes := (\<lambda>f. if f = 0 then [3, 2] else []),
        traffic_flow_routes_backup := (\<lambda>f. if f = 0 then [0] else []),
        proposed_link_congestion_costs :=
          (\<lambda>l. if l = 0 then 0 else if l = 2 \<or> l = 3 then 1 / 4 else - 1),
        link_bandwidth_usages := (\<lambda>l. if l = 2 \<or> l = 3 then 5 else 0),
        affected_traffic_flows := [0],
        affected_noc_links := [0, 2, 3]\<rparr>"

definition ex_delta_evaluated :: NocCostTerms where
  "ex_delta_evaluated =
     \<lparr>aggregate_bandwidth = 10, latency = 6, latency_overrun = 4, congestion = 1 / 4\<rparr>"

text \<open>Cost terms with a negative aggregate bandwidth, for the normalisation factors.\<close>

definition ex_costs :: t_placer_costs where
  "ex_costs =
     \<lparr>noc_cost_terms = \<lparr>aggregate_bandwidth = - 2, latency = 0, latency_overrun = 4,
                         congestion = 0\<rparr>,
      noc_cost_norm_factors = \<lparr>aggregate_bandwidth = 0, latency = 0, latency_overrun = 0,
                         congestion = 0\<rparr>\<rparr>"

text \<open>
  Collaborators of the proposer: the generator is a counter, a destination is
  found one step to the right when \<open>rlim\<close> is at least one, and the floorplan
  region is \<open>x \<le> 2\<close>.  In \<open>ex_registry\<close> cluster 1 is fixed.
\<close>

definition ex_env :: "(nat, unit) placer_collaborators" where
  "ex_env =
     \<lparr>irand = (\<lambda>rng imax. (int rng mod (imax + 1), Suc rng)),
      block_type = (\<lambda>b. 0),
      get_physical_type = (\<lambda>p. 0),
      is_tile_compatible = (\<lambda>a b. a = b),
      default_t_pl_loc = \<lparr>loc_x = - 1, loc_y = - 1, loc_sub_tile = - 1, loc_layer = - 1\<rparr>,
      find_to_loc_uniform = (\<lambda>ty rlim from_loc to_loc b reg rng.
         (1 \<le> rlim, to_loc\<lparr>loc_x := loc_x from_loc + 1, loc_y := loc_y from_loc,
                              loc_sub_tile := loc_sub_tile from_loc\<rparr>, Suc rng)),
      create_move = (\<lambda>blocks b to_loc reg macros.
         (VALID, blocks\<lparr>moved_blocks := moved_blocks blocks
            @ [\<lparr>block_num = b, old_loc = loc (block_locs reg b), new_loc = to_loc\<rparr>]\<rparr>)),
      floorplan_legal = (\<lambda>blocks. list_all (\<lambda>m. loc_x (new_loc m) \<le> 2) (moved_blocks blocks))\<rparr>"

definition ex_registry :: BlkLocRegistry where
  "ex_registry = \<lparr>block_locs = (\<lambda>b. \<lparr>loc = ex_loc (if b = 0 then 2 else 0),
                                      is_fixed = (b = 1)\<rparr>)\<rparr>"

definition ex_no_blocks :: t_pl_blocks_to_be_moved where
  "ex_no_blocks = \<lparr>moved_blocks = []\<rparr>"

definition ex_ctx_no_routers :: NocContext where
  "ex_ctx_no_routers =
     ex_ctx\<lparr>noc_traffic_flows_storage := ex_storage\<lparr>get_router_clusters_in_netlist := []\<rparr>\<rparr>"

definition ex_free_registry :: BlkLocRegistry where
  "ex_free_registry = \<lparr>block_locs = (\<lambda>b. \<lparr>loc = ex_loc 0, is_fixed = False\<rparr>)\<rparr>"




subsection \<open>A line of five routers and two flows\<close>









lemmas ex_defs = ex_noc_model_def ex_noc_model_detailed_def ex_flow_def ex_storage_def
  ex_router_def ex_ctx_def ex_loc_def ex_handler_def ex_blocks_def ex_delta_def



section \<open>The cost kernels\<close>

lemma fold_add_sum_list:
  "fold (\<lambda>x acc. acc + f x) xs (a::real) = a + sum_list (map f xs)"
  by (induction xs arbitrary: a) (simp_all add: algebra_simps)

lemma noc_link_latency_component_spec:
  "noc_link_latency_component route m = spec_link_latency route m"
  by (simp add: noc_link_latency_component_def spec_link_latency_def fold_add_sum_list
      get_noc_links_of_def get_single_noc_link_def comp_def)

lemma noc_router_latency_component_spec:
  "route \<noteq> [] \<Longrightarrow> noc_router_latency_component route m = Inr (spec_router_latency route m)"
  by (cases route)
     (simp_all add: noc_router_latency_component_def spec_router_latency_def fold_add_sum_list
      get_noc_links_of_def get_single_noc_link_def get_single_noc_router_def comp_def Let_def)

lemma calculate_traffic_flow_latency_cost_spec:
  assumes "route \<noteq> []"
  shows "calculate_traffic_flow_latency_cost route m flow =
           Inr (spec_route_latency route m * of_int (traffic_flow_priority flow),
                std_max (spec_route_latency route m - max_traffic_flow_latency flow) 0
                  * of_int (traffic_flow_priority flow))"
  using assms
  by (simp add: calculate_traffic_flow_latency_cost_def noc_router_latency_component_spec
      noc_link_latency_component_spec spec_route_latency_def Let_def add.commute)

text \<open>
  Claim C4.  For a non-empty route, when neither detailed link latencies nor
  detailed router latencies are selected, the latency returned by
  \<open>calculate_traffic_flow_latency_cost\<close> is the flow's priority times
  (default link latency times the number of links plus default router latency
  times the number of links plus one); when detailed link latencies are selected
  the link part is instead the sum of the latencies of the route's links.
\<close>

theorem latency_cost_coarse_and_detailed_link:
  assumes "route \<noteq> []"
  shows "(\<not> get_detailed_link_latency m \<and> \<not> get_detailed_router_latency m \<longrightarrow>
            (\<exists>overrun. calculate_traffic_flow_latency_cost route m flow =
               Inr (of_int (traffic_flow_priority flow)
                      * (get_noc_link_latency m * real (length route)
                         + get_noc_router_latency m * (real (length route) + 1)),
                    overrun)))
       \<and> (get_detailed_link_latency m \<longrightarrow>
            (\<exists>overrun. calculate_traffic_flow_latency_cost route m flow =
               Inr (of_int (traffic_flow_priority flow)
                      * ((\<Sum>l\<leftarrow>route. link_latency m l) + spec_router_latency route m),
                    overrun)))"
  using assms
  by (simp add: calculate_traffic_flow_latency_cost_spec spec_route_latency_def
      spec_link_latency_def spec_router_latency_def mult.commute)

theorem latency_cost_coarse_and_detailed_link_witness:
  "(\<exists>overrun. calculate_traffic_flow_latency_cost [0, 1] ex_noc_model ex_flow
        = Inr (14, overrun))
 \<and> (\<exists>overrun. calculate_traffic_flow_latency_cost [0, 1] ex_noc_model_detailed ex_flow
        = Inr (22, overrun))"
  using latency_cost_coarse_and_detailed_link[of "[0, 1]" ex_noc_model ex_flow]
    latency_cost_coarse_and_detailed_link[of "[0, 1]" ex_noc_model_detailed ex_flow]
  by (simp add: ex_defs spec_router_latency_def)

text \<open>
  Claim C5.  For a non-empty route the latency-overrun term returned by
  \<open>calculate_traffic_flow_latency_cost\<close> is the priority times the maximum of zero
  and \<open>L\<close> minus the flow's maximum latency, where \<open>L\<close> is the unweighted latency of
  the route: the priority multiplies the overrun once, and not the latency
  inside the maximum.
\<close>

theorem latency_overrun_scaled_once:
  assumes "route \<noteq> []"
  shows "\<exists>lat. calculate_traffic_flow_latency_cost route m flow =
           Inr (lat, of_int (traffic_flow_priority flow)
                       * max 0 (spec_route_latency route m - max_traffic_flow_latency flow))"
  using assms
  by (simp add: calculate_traffic_flow_latency_cost_spec std_max_def max_def mult.commute)

theorem latency_overrun_scaled_once_witness:
  "(\<exists>lat. calculate_traffic_flow_latency_cost [0, 1] ex_noc_model ex_flow = Inr (lat, 4))
 \<and> (\<exists>lat. calculate_traffic_flow_latency_cost [0, 1] ex_noc_model_detailed ex_flow
        = Inr (lat, 12))"
  using latency_overrun_scaled_once[of "[0, 1]" ex_noc_model ex_flow]
    latency_overrun_scaled_once[of "[0, 1]" ex_noc_model_detailed ex_flow]
  by (simp add: ex_defs spec_route_latency_def spec_link_latency_def spec_router_latency_def)

text \<open>
  Claim C9.  With detailed router latencies the kernel reads the first link of
  the route without a check.  On a non-empty route the read is in bounds and the
  kernel returns a result; on the empty route with detailed router latencies the
  read is out of bounds and the kernel has no defined result.  (Without detailed
  router latencies the route is not indexed and the empty route has a result.)
\<close>

theorem latency_cost_defined_on_nonempty_routes:
  "(route \<noteq> [] \<longrightarrow> (\<exists>r. calculate_traffic_flow_latency_cost route m flow = Inr r))
   \<and> (get_detailed_router_latency m \<longrightarrow>
        calculate_traffic_flow_latency_cost [] m flow = Inl OutOfBounds)
   \<and> (\<not> get_detailed_router_latency m \<longrightarrow>
        (\<exists>r. calculate_traffic_flow_latency_cost [] m flow = Inr r))"
  by (simp add: calculate_traffic_flow_latency_cost_spec)
     (simp add: calculate_traffic_flow_latency_cost_def noc_router_latency_component_def Let_def)

theorem latency_cost_defined_on_nonempty_routes_witness:
  "(\<exists>r. calculate_traffic_flow_latency_cost [0, 1] ex_noc_model_detailed ex_flow = Inr r)
 \<and> calculate_traffic_flow_latency_cost [] ex_noc_model_detailed ex_flow = Inl OutOfBounds
 \<and> (\<exists>r. calculate_traffic_flow_latency_cost [] ex_noc_model ex_flow = Inr r)"
  using latency_cost_defined_on_nonempty_routes[of "[0, 1]" ex_noc_model_detailed ex_flow]
    latency_cost_defined_on_nonempty_routes[of "[]" ex_noc_model ex_flow]
  by (simp add: ex_defs)

section \<open>The transaction\<close>

subsection \<open>The guarded loops act once on every associated flow\<close>

lemma fresh_append: "fresh (xs @ ys) seen = fresh xs seen @ fresh ys (seen \<union> set xs)"
  by (induction xs arbitrary: seen) (simp_all add: insert_absorb)

lemma set_fresh: "set (fresh xs seen) = set xs - seen"
  by (induction xs arbitrary: seen) auto

lemma distinct_fresh: "distinct (fresh xs seen)"
  by (induction xs arbitrary: seen) (auto simp: set_fresh)

lemma update_traffic_flow_link_usage_closed:
  "update_traffic_flow_link_usage route inc bw h =
     h\<lparr>link_bandwidth_usages :=
         (\<lambda>l. link_bandwidth_usages h l + of_int inc * bw * real (count_list route l))\<rparr>"
proof (induction route arbitrary: h)
  case Nil
  then show ?case by (simp add: update_traffic_flow_link_usage_def)
next
  case (Cons a route)
  have "update_traffic_flow_link_usage (a # route) inc bw h =
        update_traffic_flow_link_usage route inc bw
          (h\<lparr>link_bandwidth_usages := (link_bandwidth_usages h)
                (a := link_bandwidth_usages h a + of_int inc * bw)\<rparr>)"
    by (simp add: update_traffic_flow_link_usage_def Let_def)
  also have "\<dots> = h\<lparr>link_bandwidth_usages :=
         (\<lambda>l. link_bandwidth_usages h l + of_int inc * bw * real (count_list (a # route) l))\<rparr>"
    by (simp add: Cons.IH fun_eq_iff algebra_simps)
  finally show ?case .
qed

lemma re_route_traffic_flow_closed:
  "re_route_traffic_flow f ctx h =
     h\<lparr>link_bandwidth_usages :=
         (\<lambda>l. link_bandwidth_usages h l + flow_bandwidth ctx f *
            (real (count_list (routed ctx (block_locs_ref h) f (traffic_flow_routes_backup h f)) l)
             - real (count_list (traffic_flow_routes h f) l))),
       traffic_flow_routes := (traffic_flow_routes h)
         (f := routed ctx (block_locs_ref h) f (traffic_flow_routes_backup h f)),
       traffic_flow_routes_backup := (traffic_flow_routes_backup h)(f := traffic_flow_routes h f)\<rparr>"
  by (simp add: re_route_traffic_flow_def update_traffic_flow_link_usage_closed swap_routes_def
      route_traffic_flow_def routed_def flow_bandwidth_def Let_def fun_eq_iff algebra_simps)

lemma re_route_core_closed:
  "re_route_core ctx f h =
     (re_route_traffic_flow f ctx h)
       \<lparr>affected_traffic_flows := affected_traffic_flows h @ [f],
        affected_noc_links := fold unordered_set_insert
           (find_affected_links_by_flow_reroute (traffic_flow_routes h f)
              (routed ctx (block_locs_ref h) f (traffic_flow_routes_backup h f)))
           (affected_noc_links h)\<rparr>"
  by (simp add: re_route_core_def re_route_associated_step_def Let_def
      re_route_traffic_flow_closed)

lemma re_route_associated_step_fresh:
  "f \<notin> U \<Longrightarrow> re_route_associated_step ctx f (h, U) = (re_route_core ctx f h, insert f U)"
  by (simp add: re_route_core_def re_route_associated_step_def Let_def)

lemma re_route_associated_step_seen:
  "f \<in> U \<Longrightarrow> re_route_associated_step ctx f (h, U) = (h, U)"
  by (simp add: re_route_associated_step_def)

lemma fold_re_route_associated_step:
  "fold (re_route_associated_step ctx) fs (h, U) =
     (fold (re_route_core ctx) (fresh fs U) h, U \<union> set fs)"
proof (induction fs arbitrary: h U)
  case Nil
  then show ?case by simp
next
  case (Cons f fs)
  show ?case
  proof (cases "f \<in> U")
    case True
    then show ?thesis
      by (auto simp add: re_route_associated_step_seen Cons.IH)
  next
    case False
    then show ?thesis
      by (simp add: re_route_associated_step_fresh Cons.IH)
  qed
qed

lemma re_route_associated_traffic_flows_flat:
  "re_route_associated_traffic_flows b ctx (h, U) =
     (fold (re_route_core ctx)
        (fresh (get_traffic_flows_associated_to_router_block (noc_traffic_flows_storage ctx) b) U)
        h,
      U \<union> set (get_traffic_flows_associated_to_router_block (noc_traffic_flows_storage ctx) b))"
  by (simp add: re_route_associated_traffic_flows_def Let_def fold_re_route_associated_step)

lemma re_route_moved_blocks_flat:
  "re_route_moved_blocks blocks ctx (h, U) =
     (fold (re_route_core ctx) (fresh (associated_flows_of_moved ctx blocks) U) h,
      U \<union> set (associated_flows_of_moved ctx blocks))"
proof -
  have "fold (\<lambda>block st.
             if check_if_cluster_block_has_traffic_flows (noc_traffic_flows_storage ctx)
                  (block_num block)
             then re_route_associated_traffic_flows (block_num block) ctx st
             else st) bs (h, U) =
     (fold (re_route_core ctx) (fresh (associated_flows_of_moved ctx \<lparr>moved_blocks = bs\<rparr>) U) h,
      U \<union> set (associated_flows_of_moved ctx \<lparr>moved_blocks = bs\<rparr>))" for bs
  proof (induction bs arbitrary: h U)
    case Nil
    then show ?case by (simp add: associated_flows_of_moved_def)
  next
    case (Cons b bs)
    have split: "associated_flows_of_moved ctx \<lparr>moved_blocks = b # bs\<rparr> =
       (if check_if_cluster_block_has_traffic_flows (noc_traffic_flows_storage ctx) (block_num b)
        then get_traffic_flows_associated_to_router_block (noc_traffic_flows_storage ctx)
               (block_num b)
        else []) @ associated_flows_of_moved ctx \<lparr>moved_blocks = bs\<rparr>"
      by (simp add: associated_flows_of_moved_def)
    show ?case
      unfolding split
      by (simp add: re_route_associated_traffic_flows_flat Cons.IH fresh_append Un_assoc)
  qed
  from this[of "moved_blocks blocks"] show ?thesis
    by (simp add: re_route_moved_blocks_def associated_flows_of_moved_def Let_def)
qed

subsection \<open>The effect of the re-routing loop\<close>

lemma distinct_fold_unordered_set_insert:
  "distinct s \<Longrightarrow> distinct (fold unordered_set_insert xs s)"
  by (induction xs arbitrary: s) (simp_all add: unordered_set_insert_def)

lemma re_route_core_fields:
  "block_locs_ref (re_route_core ctx f h) = block_locs_ref h"
  "traffic_flow_costs (re_route_core ctx f h) = traffic_flow_costs h"
  "proposed_traffic_flow_costs (re_route_core ctx f h) = proposed_traffic_flow_costs h"
  "link_congestion_costs (re_route_core ctx f h) = link_congestion_costs h"
  "proposed_link_congestion_costs (re_route_core ctx f h) = proposed_link_congestion_costs h"
  "affected_traffic_flows (re_route_core ctx f h) = affected_traffic_flows h @ [f]"
  "traffic_flow_routes (re_route_core ctx f h) = (traffic_flow_routes h)
         (f := routed ctx (block_locs_ref h) f (traffic_flow_routes_backup h f))"
  "traffic_flow_routes_backup (re_route_core ctx f h) =
         (traffic_flow_routes_backup h)(f := traffic_flow_routes h f)"
  "link_bandwidth_usages (re_route_core ctx f h) =
         (\<lambda>l. link_bandwidth_usages h l + flow_bandwidth ctx f *
            (real (count_list (routed ctx (block_locs_ref h) f (traffic_flow_routes_backup h f)) l)
             - real (count_list (traffic_flow_routes h f) l)))"
  by (simp_all add: re_route_core_closed re_route_traffic_flow_closed)

lemma re_route_core_links_distinct:
  "distinct (affected_noc_links h) \<Longrightarrow> distinct (affected_noc_links (re_route_core ctx f h))"
  by (simp add: re_route_core_closed re_route_traffic_flow_closed
      distinct_fold_unordered_set_insert)

lemma fold_re_route_core_frame:
  "block_locs_ref (fold (re_route_core ctx) D h) = block_locs_ref h"
  "traffic_flow_costs (fold (re_route_core ctx) D h) = traffic_flow_costs h"
  "proposed_traffic_flow_costs (fold (re_route_core ctx) D h) = proposed_traffic_flow_costs h"
  "link_congestion_costs (fold (re_route_core ctx) D h) = link_congestion_costs h"
  "proposed_link_congestion_costs (fold (re_route_core ctx) D h) =
     proposed_link_congestion_costs h"
  "affected_traffic_flows (fold (re_route_core ctx) D h) = affected_traffic_flows h @ D"
  by (induction D arbitrary: h; simp add: re_route_core_fields)+

lemma fold_re_route_core_links_distinct:
  "distinct (affected_noc_links h) \<Longrightarrow>
   distinct (affected_noc_links (fold (re_route_core ctx) D h))"
  by (induction D arbitrary: h) (simp_all add: re_route_core_links_distinct)

lemma fold_re_route_core_routes:
  "distinct D \<Longrightarrow>
   traffic_flow_routes (fold (re_route_core ctx) D h) =
     (\<lambda>f. if f \<in> set D
          then routed ctx (block_locs_ref h) f (traffic_flow_routes_backup h f)
          else traffic_flow_routes h f)"
  by (induction D arbitrary: h) (auto simp add: re_route_core_fields fun_eq_iff)

lemma fold_re_route_core_backup:
  "distinct D \<Longrightarrow>
   traffic_flow_routes_backup (fold (re_route_core ctx) D h) =
     (\<lambda>f. if f \<in> set D then traffic_flow_routes h f else traffic_flow_routes_backup h f)"
  by (induction D arbitrary: h) (auto simp add: re_route_core_fields fun_eq_iff)

lemma fold_re_route_core_usage:
  "distinct D \<Longrightarrow>
   link_bandwidth_usages (fold (re_route_core ctx) D h) l =
     link_bandwidth_usages h l
     + (\<Sum>f\<leftarrow>D. flow_bandwidth ctx f *
          (real (count_list (routed ctx (block_locs_ref h) f (traffic_flow_routes_backup h f)) l)
           - real (count_list (traffic_flow_routes h f) l)))"
proof (induction D arbitrary: h)
  case Nil
  then show ?case by simp
next
  case (Cons f D)
  have ne: "\<And>g. g \<in> set D \<Longrightarrow> g \<noteq> f" using Cons.prems by auto
  have "(\<Sum>g\<leftarrow>D. flow_bandwidth ctx g *
          (real (count_list (routed ctx (block_locs_ref (re_route_core ctx f h)) g
                   (traffic_flow_routes_backup (re_route_core ctx f h) g)) l)
           - real (count_list (traffic_flow_routes (re_route_core ctx f h) g) l)))
      = (\<Sum>g\<leftarrow>D. flow_bandwidth ctx g *
          (real (count_list (routed ctx (block_locs_ref h) g (traffic_flow_routes_backup h g)) l)
           - real (count_list (traffic_flow_routes h g) l)))"
    by (rule arg_cong[where f = sum_list], rule map_cong)
       (simp_all add: re_route_core_fields ne)
  with Cons show ?case
    by (simp add: re_route_core_fields)
qed

subsection \<open>The effect of the revert\<close>










subsection \<open>The cost loops of the evaluation leave the routing state alone\<close>

lemma update_proposed_flow_costs_frame:
  "update_proposed_flow_costs ctx ids (h, d) = Inr (h', d') \<Longrightarrow>
   \<exists>P. h' = h\<lparr>proposed_traffic_flow_costs := P\<rparr>"
proof (induction ids arbitrary: h d)
  case Nil
  then have "h' = h\<lparr>proposed_traffic_flow_costs := proposed_traffic_flow_costs h\<rparr>" by simp
  then show ?case by blast
next
  case (Cons f ids)
  from Cons.prems obtain P dm where
    m: "update_proposed_flow_costs ctx ids (h\<lparr>proposed_traffic_flow_costs := P\<rparr>, dm)
          = Inr (h', d')"
    by (auto simp: Let_def split: sum.splits)
  from Cons.IH[OF m] obtain P' where "h' = h\<lparr>proposed_traffic_flow_costs := P'\<rparr>"
    by auto
  then show ?case by blast
qed

lemma update_proposed_link_costs_fold_frame:
  "\<exists>Q d'. fold update_proposed_link_cost_step links (h, d)
            = (h\<lparr>proposed_link_congestion_costs := Q\<rparr>, d')"
proof (induction links arbitrary: h d)
  case Nil
  have "fold update_proposed_link_cost_step [] (h, d)
          = (h\<lparr>proposed_link_congestion_costs := proposed_link_congestion_costs h\<rparr>, d)"
    by simp
  then show ?case by blast
next
  case (Cons a links)
  obtain Q dm where s: "update_proposed_link_cost_step a (h, d)
      = (h\<lparr>proposed_link_congestion_costs := Q\<rparr>, dm)"
    by (simp add: update_proposed_link_cost_step_def Let_def)
  from Cons.IH[of "h\<lparr>proposed_link_congestion_costs := Q\<rparr>" dm] s
  show ?case by auto
qed

lemma update_proposed_link_costs_frame:
  "\<exists>Q d'. update_proposed_link_costs ctx (h, d)
            = (h\<lparr>proposed_link_congestion_costs := Q\<rparr>, d')"
  by (simp add: update_proposed_link_costs_def update_proposed_link_costs_fold_frame)

lemma find_affected_result:
  assumes "find_affected_noc_routers_and_update_noc_costs blocks delta_c ctx h = Inr (h', delta_c')"
  shows "\<exists>P Q. h' = (re_routed ctx blocks h)\<lparr>proposed_traffic_flow_costs := P,
                proposed_link_congestion_costs := Q\<rparr>"
proof -
  let ?g = "re_routed ctx blocks h"
  have g: "fst (re_route_moved_blocks blocks ctx
                 (h\<lparr>affected_traffic_flows := [], affected_noc_links := []\<rparr>, {})) = ?g"
    by (simp add: re_route_moved_blocks_flat re_routed_def)
  from assms obtain hm dm where
    a: "update_proposed_flow_costs ctx (affected_traffic_flows ?g) (?g, delta_c) = Inr (hm, dm)"
    and b: "update_proposed_link_costs ctx (hm, dm) = (h', delta_c')"
    unfolding find_affected_noc_routers_and_update_noc_costs_def Let_def g
    by (auto split: sum.splits)
  from update_proposed_flow_costs_frame[OF a] obtain P where
    hm: "hm = ?g\<lparr>proposed_traffic_flow_costs := P\<rparr>" by auto
  from update_proposed_link_costs_frame[of ctx hm dm] b obtain Q where
    "h' = hm\<lparr>proposed_link_congestion_costs := Q\<rparr>" by auto
  with hm show ?thesis by auto
qed

lemma re_routed_fields:
  "block_locs_ref (re_routed ctx blocks h) = block_locs_ref h"
  "traffic_flow_costs (re_routed ctx blocks h) = traffic_flow_costs h"
  "link_congestion_costs (re_routed ctx blocks h) = link_congestion_costs h"
  "affected_traffic_flows (re_routed ctx blocks h) = fresh (associated_flows_of_moved ctx blocks) {}"
  "distinct (affected_noc_links (re_routed ctx blocks h))"
  "traffic_flow_routes (re_routed ctx blocks h) =
     (\<lambda>f. if f \<in> set (associated_flows_of_moved ctx blocks)
          then routed ctx (block_locs_ref h) f (traffic_flow_routes_backup h f)
          else traffic_flow_routes h f)"
  "traffic_flow_routes_backup (re_routed ctx blocks h) =
     (\<lambda>f. if f \<in> set (associated_flows_of_moved ctx blocks) then traffic_flow_routes h f
          else traffic_flow_routes_backup h f)"
  "link_bandwidth_usages (re_routed ctx blocks h) l =
     link_bandwidth_usages h l
     + (\<Sum>f\<leftarrow>fresh (associated_flows_of_moved ctx blocks) {}. flow_bandwidth ctx f *
          (real (count_list (routed ctx (block_locs_ref h) f (traffic_flow_routes_backup h f)) l)
           - real (count_list (traffic_flow_routes h f) l)))"
  by (auto simp add: re_routed_def fold_re_route_core_frame fold_re_route_core_links_distinct
      fold_re_route_core_routes fold_re_route_core_backup fold_re_route_core_usage
      distinct_fresh set_fresh fun_eq_iff)

text \<open>
  The evaluation returns a result whenever detailed router latencies are not
  selected: the only failure of the model is the unchecked read of the latency
  kernel.
\<close>

lemma update_proposed_flow_costs_defined:
  "\<not> get_detailed_router_latency (noc_model ctx) \<Longrightarrow>
   \<exists>r. update_proposed_flow_costs ctx ids (h, d) = Inr r"
proof (induction ids arbitrary: h d)
  case Nil
  then show ?case by simp
next
  case (Cons f ids)
  from Cons.prems obtain lat ov where
    "calculate_traffic_flow_latency_cost (traffic_flow_routes h f) (noc_model ctx)
       (get_single_noc_traffic_flow (noc_traffic_flows_storage ctx) f) = Inr (lat, ov)"
    by (auto simp add: calculate_traffic_flow_latency_cost_def
        noc_router_latency_component_def Let_def)
  with Cons.IH[OF Cons.prems] show ?case
    by (simp add: Let_def)
qed

lemma find_affected_defined:
  assumes "\<not> get_detailed_router_latency (noc_model ctx)"
  shows "\<exists>h' delta_c'. find_affected_noc_routers_and_update_noc_costs blocks delta_c ctx h
      = Inr (h', delta_c')"
proof -
  let ?h1 = "fst (re_route_moved_blocks blocks ctx
                (h\<lparr>affected_traffic_flows := [], affected_noc_links := []\<rparr>, {}))"
  from update_proposed_flow_costs_defined[OF assms]
  obtain st where "update_proposed_flow_costs ctx (affected_traffic_flows ?h1) (?h1, delta_c)
      = Inr st"
    by blast
  then have "find_affected_noc_routers_and_update_noc_costs blocks delta_c ctx h
      = Inr (update_proposed_link_costs ctx st)"
    by (simp add: find_affected_noc_routers_and_update_noc_costs_def Let_def)
  then show ?thesis
    by (cases "update_proposed_link_costs ctx st") auto
qed

text \<open>The example evaluates to \<open>ex_evaluated\<close>.\<close>

lemma ex_evaluation:
  "find_affected_noc_routers_and_update_noc_costs ex_blocks ex_delta ex_ctx ex_handler
     = Inr (ex_evaluated, ex_delta_evaluated)"
  by (simp add: find_affected_noc_routers_and_update_noc_costs_def ex_defs Let_def
      re_route_moved_blocks_def re_route_associated_traffic_flows_def
      re_route_associated_step_def re_route_traffic_flow_def update_traffic_flow_link_usage_def
      swap_routes_def route_traffic_flow_def find_affected_links_by_flow_reroute_def
      unordered_set_insert_def calculate_traffic_flow_aggregate_bandwidth_cost_def
      calculate_traffic_flow_latency_cost_def noc_link_latency_component_def
      noc_router_latency_component_def update_proposed_link_costs_def
      update_proposed_link_cost_step_def get_noc_links_of_def get_single_noc_link_def
      get_link_congestion_cost_def std_max_def ex_evaluated_def ex_delta_evaluated_def
      fun_eq_iff)


subsection \<open>The rounding of the 64-bit binary format\<close>








subsection \<open>Evaluation and revert in \<^verbatim>\<open>double\<close> arithmetic\<close>










































subsection \<open>No duplicates among the affected flows and links\<close>

lemma count_list_distinct: "distinct xs \<Longrightarrow> x \<in> set xs \<Longrightarrow> count_list xs x = 1"
  by (induction xs) auto

lemma associated_flows_of_moved_member:
  "block \<in> set (moved_blocks blocks) \<Longrightarrow>
   check_if_cluster_block_has_traffic_flows (noc_traffic_flows_storage ctx) (block_num block) \<Longrightarrow>
   f \<in> set (get_traffic_flows_associated_to_router_block (noc_traffic_flows_storage ctx)
              (block_num block)) \<Longrightarrow>
   f \<in> set (associated_flows_of_moved ctx blocks)"
  by (auto simp add: associated_flows_of_moved_def)

lemma fold_re_route_core_as_re_route:
  assumes "traffic_flow_routes h = traffic_flow_routes g"
    and "traffic_flow_routes_backup h = traffic_flow_routes_backup g"
    and "link_bandwidth_usages h = link_bandwidth_usages g"
    and "block_locs_ref h = block_locs_ref g"
  shows "traffic_flow_routes (fold (re_route_core ctx) D h)
           = traffic_flow_routes (fold (\<lambda>f. re_route_traffic_flow f ctx) D g)
       \<and> traffic_flow_routes_backup (fold (re_route_core ctx) D h)
           = traffic_flow_routes_backup (fold (\<lambda>f. re_route_traffic_flow f ctx) D g)
       \<and> link_bandwidth_usages (fold (re_route_core ctx) D h)
           = link_bandwidth_usages (fold (\<lambda>f. re_route_traffic_flow f ctx) D g)"
  using assms
proof (induction D arbitrary: h g)
  case Nil
  then show ?case by simp
next
  case (Cons f D)
  have "traffic_flow_routes (re_route_core ctx f h) = traffic_flow_routes (re_route_traffic_flow f ctx g)"
    "traffic_flow_routes_backup (re_route_core ctx f h)
       = traffic_flow_routes_backup (re_route_traffic_flow f ctx g)"
    "link_bandwidth_usages (re_route_core ctx f h)
       = link_bandwidth_usages (re_route_traffic_flow f ctx g)"
    "block_locs_ref (re_route_core ctx f h) = block_locs_ref (re_route_traffic_flow f ctx g)"
    using Cons.prems by (simp_all add: re_route_core_fields re_route_traffic_flow_closed)
  from Cons.IH[OF this] show ?case by simp
qed

text \<open>
  Claim C7.  After an evaluation, no flow occurs twice in
  \<open>affected_traffic_flows\<close> and no link twice in \<open>affected_noc_links\<close>; a flow
  associated to a moved router block occurs exactly once, also when it is
  associated to two moved blocks (its source and its sink); and the routes and
  the bandwidth usages are those obtained by re-routing each flow of
  \<open>affected_traffic_flows\<close> once, in that order.
\<close>

theorem affected_sets_have_no_duplicates:
  assumes "find_affected_noc_routers_and_update_noc_costs blocks_affected delta_c ctx h
             = Inr (h', delta_c')"
  shows "distinct (affected_traffic_flows h')
       \<and> distinct (affected_noc_links h')
       \<and> (\<forall>block \<in> set (moved_blocks blocks_affected).
            check_if_cluster_block_has_traffic_flows (noc_traffic_flows_storage ctx)
              (block_num block) \<longrightarrow>
            (\<forall>f \<in> set (get_traffic_flows_associated_to_router_block
                          (noc_traffic_flows_storage ctx) (block_num block)).
               count_list (affected_traffic_flows h') f = 1))
       \<and> traffic_flow_routes h'
           = traffic_flow_routes (fold (\<lambda>f. re_route_traffic_flow f ctx)
               (affected_traffic_flows h') h)
       \<and> link_bandwidth_usages h'
           = link_bandwidth_usages (fold (\<lambda>f. re_route_traffic_flow f ctx)
               (affected_traffic_flows h') h)"
proof -
  from find_affected_result[OF assms] obtain P Q where
    h': "h' = (re_routed ctx blocks_affected h)\<lparr>proposed_traffic_flow_costs := P,
                proposed_link_congestion_costs := Q\<rparr>" by auto
  have aff: "affected_traffic_flows h' = fresh (associated_flows_of_moved ctx blocks_affected) {}"
    by (simp add: h' re_routed_fields)
  have d1: "distinct (affected_traffic_flows h')"
    by (simp add: aff distinct_fresh)
  have d2: "distinct (affected_noc_links h')"
    by (simp add: h' re_routed_fields)
  have once: "count_list (affected_traffic_flows h') f = 1"
    if "block \<in> set (moved_blocks blocks_affected)"
      and "check_if_cluster_block_has_traffic_flows (noc_traffic_flows_storage ctx)
              (block_num block)"
      and "f \<in> set (get_traffic_flows_associated_to_router_block
                          (noc_traffic_flows_storage ctx) (block_num block))"
    for block f
    using associated_flows_of_moved_member[OF that] d1
    by (simp add: count_list_distinct aff set_fresh)
  have same: "traffic_flow_routes h'
           = traffic_flow_routes (fold (\<lambda>f. re_route_traffic_flow f ctx)
               (affected_traffic_flows h') h)
       \<and> link_bandwidth_usages h'
           = link_bandwidth_usages (fold (\<lambda>f. re_route_traffic_flow f ctx)
               (affected_traffic_flows h') h)"
    using fold_re_route_core_as_re_route[of
        "h\<lparr>affected_traffic_flows := [], affected_noc_links := []\<rparr>" h ctx
        "fresh (associated_flows_of_moved ctx blocks_affected) {}"]
    by (simp add: aff) (simp add: h' re_routed_def)
  from d1 d2 once same show ?thesis by blast
qed

theorem affected_sets_have_no_duplicates_witness:
  "find_affected_noc_routers_and_update_noc_costs ex_blocks ex_delta ex_ctx ex_handler
     = Inr (ex_evaluated, ex_delta_evaluated)
 \<and> map block_num (moved_blocks ex_blocks) = [0, 1]
 \<and> get_traffic_flows_associated_to_router_block (noc_traffic_flows_storage ex_ctx) 0 = [0]
 \<and> get_traffic_flows_associated_to_router_block (noc_traffic_flows_storage ex_ctx) 1 = [0]
 \<and> distinct (affected_traffic_flows ex_evaluated)
 \<and> distinct (affected_noc_links ex_evaluated)
 \<and> count_list (affected_traffic_flows ex_evaluated) 0 = 1"
  using affected_sets_have_no_duplicates[OF ex_evaluation] ex_evaluation
  by (simp add: ex_blocks_def ex_ctx_def ex_storage_def)

section \<open>Commit\<close>

lemma TrafficFlowPlaceCost_all_updated:
  "p\<lparr>flow_aggregate_bandwidth := a, flow_latency := b, flow_latency_overrun := c\<rparr> =
     \<lparr>flow_aggregate_bandwidth = a, flow_latency = b, flow_latency_overrun = c\<rparr>"
  by (cases p) simp

lemma commit_traffic_flow_cost_closed:
  "commit_traffic_flow_cost K f h =
     h\<lparr>traffic_flow_costs := (traffic_flow_costs h)(f := proposed_traffic_flow_costs h f),
       proposed_traffic_flow_costs := (proposed_traffic_flow_costs h)(f := invalid_flow_cost K)\<rparr>"
  by (simp add: commit_traffic_flow_cost_def invalid_flow_cost_def Let_def
      TrafficFlowPlaceCost_all_updated)

lemma commit_link_congestion_cost_closed:
  "commit_link_congestion_cost K (get_single_noc_link m l) h =
     h\<lparr>link_congestion_costs := (link_congestion_costs h)
         (l := proposed_link_congestion_costs h l),
       proposed_link_congestion_costs := (proposed_link_congestion_costs h)
         (l := INVALID_NOC_COST_TERM K)\<rparr>"
  by (simp add: commit_link_congestion_cost_def get_single_noc_link_def Let_def)

lemma fold_commit_traffic_flow_cost:
  "\<exists>A. fold (commit_traffic_flow_cost K) fs h =
     h\<lparr>traffic_flow_costs := A,
       proposed_traffic_flow_costs :=
         (\<lambda>f. if f \<in> set fs then invalid_flow_cost K else proposed_traffic_flow_costs h f)\<rparr>
     \<and> (\<forall>f. f \<notin> set fs \<longrightarrow> A f = traffic_flow_costs h f)
     \<and> (distinct fs \<longrightarrow> (\<forall>f \<in> set fs. A f = proposed_traffic_flow_costs h f))"
proof (induction fs arbitrary: h)
  case Nil
  have "fold (commit_traffic_flow_cost K) [] h =
     h\<lparr>traffic_flow_costs := traffic_flow_costs h,
       proposed_traffic_flow_costs :=
         (\<lambda>f. if f \<in> set [] then invalid_flow_cost K else proposed_traffic_flow_costs h f)\<rparr>"
    by simp
  then show ?case by - (rule exI[of _ "traffic_flow_costs h"], simp)
next
  case (Cons a fs)
  let ?h1 = "commit_traffic_flow_cost K a h"
  from Cons.IH[of ?h1] obtain A where
    A: "fold (commit_traffic_flow_cost K) fs ?h1 =
     ?h1\<lparr>traffic_flow_costs := A,
       proposed_traffic_flow_costs :=
         (\<lambda>f. if f \<in> set fs then invalid_flow_cost K else proposed_traffic_flow_costs ?h1 f)\<rparr>"
    and A1: "\<forall>f. f \<notin> set fs \<longrightarrow> A f = traffic_flow_costs ?h1 f"
    and A2: "distinct fs \<longrightarrow> (\<forall>f \<in> set fs. A f = proposed_traffic_flow_costs ?h1 f)"
    by blast
  have "fold (commit_traffic_flow_cost K) (a # fs) h =
     h\<lparr>traffic_flow_costs := A,
       proposed_traffic_flow_costs :=
         (\<lambda>f. if f \<in> set (a # fs) then invalid_flow_cost K
              else proposed_traffic_flow_costs h f)\<rparr>"
    by (simp add: A) (auto simp add: commit_traffic_flow_cost_closed fun_eq_iff)
  moreover have "\<forall>f. f \<notin> set (a # fs) \<longrightarrow> A f = traffic_flow_costs h f"
    using A1 by (simp add: commit_traffic_flow_cost_closed)
  moreover have "distinct (a # fs) \<longrightarrow> (\<forall>f \<in> set (a # fs). A f = proposed_traffic_flow_costs h f)"
    using A1 A2 by (auto simp add: commit_traffic_flow_cost_closed)
  ultimately show ?case by - (rule exI[of _ A], blast)
qed

lemma fold_commit_link_congestion_cost:
  "\<exists>C. fold (commit_link_congestion_cost K) (map (get_single_noc_link m) ls) h =
     h\<lparr>link_congestion_costs := C,
       proposed_link_congestion_costs :=
         (\<lambda>l. if l \<in> set ls then INVALID_NOC_COST_TERM K
              else proposed_link_congestion_costs h l)\<rparr>
     \<and> (\<forall>l. l \<notin> set ls \<longrightarrow> C l = link_congestion_costs h l)
     \<and> (distinct ls \<longrightarrow> (\<forall>l \<in> set ls. C l = proposed_link_congestion_costs h l))"
proof (induction ls arbitrary: h)
  case Nil
  have "fold (commit_link_congestion_cost K) (map (get_single_noc_link m) []) h =
     h\<lparr>link_congestion_costs := link_congestion_costs h,
       proposed_link_congestion_costs :=
         (\<lambda>l. if l \<in> set [] then INVALID_NOC_COST_TERM K
              else proposed_link_congestion_costs h l)\<rparr>"
    by simp
  then show ?case by - (rule exI[of _ "link_congestion_costs h"], simp)
next
  case (Cons a ls)
  let ?h1 = "commit_link_congestion_cost K (get_single_noc_link m a) h"
  from Cons.IH[of ?h1] obtain C where
    C: "fold (commit_link_congestion_cost K) (map (get_single_noc_link m) ls) ?h1 =
     ?h1\<lparr>link_congestion_costs := C,
       proposed_link_congestion_costs :=
         (\<lambda>l. if l \<in> set ls then INVALID_NOC_COST_TERM K
              else proposed_link_congestion_costs ?h1 l)\<rparr>"
    and C1: "\<forall>l. l \<notin> set ls \<longrightarrow> C l = link_congestion_costs ?h1 l"
    and C2: "distinct ls \<longrightarrow> (\<forall>l \<in> set ls. C l = proposed_link_congestion_costs ?h1 l)"
    by blast
  have "fold (commit_link_congestion_cost K) (map (get_single_noc_link m) (a # ls)) h =
     h\<lparr>link_congestion_costs := C,
       proposed_link_congestion_costs :=
         (\<lambda>l. if l \<in> set (a # ls) then INVALID_NOC_COST_TERM K
              else proposed_link_congestion_costs h l)\<rparr>"
    by (simp add: C) (auto simp add: commit_link_congestion_cost_closed fun_eq_iff)
  moreover have "\<forall>l. l \<notin> set (a # ls) \<longrightarrow> C l = link_congestion_costs h l"
    using C1 by (simp add: commit_link_congestion_cost_closed)
  moreover have "distinct (a # ls) \<longrightarrow>
      (\<forall>l \<in> set (a # ls). C l = proposed_link_congestion_costs h l)"
    using C1 C2 by (auto simp add: commit_link_congestion_cost_closed)
  ultimately show ?case by - (rule exI[of _ C], blast)
qed

lemma commit_noc_costs_closed:
  "\<exists>A C. commit_noc_costs K ctx h =
     h\<lparr>traffic_flow_costs := A,
       proposed_traffic_flow_costs :=
         (\<lambda>f. if f \<in> set (affected_traffic_flows h) then invalid_flow_cost K
              else proposed_traffic_flow_costs h f),
       link_congestion_costs := C,
       proposed_link_congestion_costs :=
         (\<lambda>l. if l \<in> set (affected_noc_links h) then INVALID_NOC_COST_TERM K
              else proposed_link_congestion_costs h l)\<rparr>
     \<and> (\<forall>f. f \<notin> set (affected_traffic_flows h) \<longrightarrow> A f = traffic_flow_costs h f)
     \<and> (distinct (affected_traffic_flows h) \<longrightarrow>
          (\<forall>f \<in> set (affected_traffic_flows h). A f = proposed_traffic_flow_costs h f))
     \<and> (\<forall>l. l \<notin> set (affected_noc_links h) \<longrightarrow> C l = link_congestion_costs h l)
     \<and> (distinct (affected_noc_links h) \<longrightarrow>
          (\<forall>l \<in> set (affected_noc_links h). C l = proposed_link_congestion_costs h l))"
proof -
  let ?h1 = "fold (commit_traffic_flow_cost K) (affected_traffic_flows h) h"
  from fold_commit_traffic_flow_cost[of K "affected_traffic_flows h" h] obtain A where
    A: "?h1 = h\<lparr>traffic_flow_costs := A,
       proposed_traffic_flow_costs :=
         (\<lambda>f. if f \<in> set (affected_traffic_flows h) then invalid_flow_cost K
              else proposed_traffic_flow_costs h f)\<rparr>"
    and A1: "\<forall>f. f \<notin> set (affected_traffic_flows h) \<longrightarrow> A f = traffic_flow_costs h f"
    and A2: "distinct (affected_traffic_flows h) \<longrightarrow>
          (\<forall>f \<in> set (affected_traffic_flows h). A f = proposed_traffic_flow_costs h f)"
    by blast
  from fold_commit_link_congestion_cost[of K "noc_model ctx" "affected_noc_links ?h1" ?h1]
  obtain C where
    C: "fold (commit_link_congestion_cost K)
          (map (get_single_noc_link (noc_model ctx)) (affected_noc_links ?h1)) ?h1 =
     ?h1\<lparr>link_congestion_costs := C,
       proposed_link_congestion_costs :=
         (\<lambda>l. if l \<in> set (affected_noc_links ?h1) then INVALID_NOC_COST_TERM K
              else proposed_link_congestion_costs ?h1 l)\<rparr>"
    and C1: "\<forall>l. l \<notin> set (affected_noc_links ?h1) \<longrightarrow> C l = link_congestion_costs ?h1 l"
    and C2: "distinct (affected_noc_links ?h1) \<longrightarrow>
          (\<forall>l \<in> set (affected_noc_links ?h1). C l = proposed_link_congestion_costs ?h1 l)"
    by blast
  have links: "affected_noc_links ?h1 = affected_noc_links h"
    "link_congestion_costs ?h1 = link_congestion_costs h"
    "proposed_link_congestion_costs ?h1 = proposed_link_congestion_costs h"
    by (simp_all add: A)
  have "commit_noc_costs K ctx h =
     h\<lparr>traffic_flow_costs := A,
       proposed_traffic_flow_costs :=
         (\<lambda>f. if f \<in> set (affected_traffic_flows h) then invalid_flow_cost K
              else proposed_traffic_flow_costs h f),
       link_congestion_costs := C,
       proposed_link_congestion_costs :=
         (\<lambda>l. if l \<in> set (affected_noc_links h) then INVALID_NOC_COST_TERM K
              else proposed_link_congestion_costs h l)\<rparr>"
    unfolding commit_noc_costs_def Let_def get_noc_links_of_def C
    unfolding links by (simp add: A)
  with A1 A2 C1 C2 show ?thesis unfolding links
    by - (rule exI[of _ A], rule exI[of _ C], blast)
qed

text \<open>
  Claim C10.  \<open>commit_noc_costs\<close> writes the committed and the proposed cost
  caches only: the block locations, the committed routes, the backup routes
  and the bandwidth usages are unchanged, and so are the committed and proposed
  costs of every flow outside \<open>affected_traffic_flows\<close> and of every link
  outside \<open>affected_noc_links\<close>.
\<close>

theorem commit_frame:
  "block_locs_ref (commit_noc_costs K ctx h) = block_locs_ref h
 \<and> affected_traffic_flows (commit_noc_costs K ctx h) = affected_traffic_flows h
 \<and> affected_noc_links (commit_noc_costs K ctx h) = affected_noc_links h
 \<and> traffic_flow_routes (commit_noc_costs K ctx h) = traffic_flow_routes h
 \<and> traffic_flow_routes_backup (commit_noc_costs K ctx h) = traffic_flow_routes_backup h
 \<and> link_bandwidth_usages (commit_noc_costs K ctx h) = link_bandwidth_usages h
 \<and> (\<forall>f. f \<notin> set (affected_traffic_flows h) \<longrightarrow>
        traffic_flow_costs (commit_noc_costs K ctx h) f = traffic_flow_costs h f
      \<and> proposed_traffic_flow_costs (commit_noc_costs K ctx h) f
          = proposed_traffic_flow_costs h f)
 \<and> (\<forall>l. l \<notin> set (affected_noc_links h) \<longrightarrow>
        link_congestion_costs (commit_noc_costs K ctx h) l = link_congestion_costs h l
      \<and> proposed_link_congestion_costs (commit_noc_costs K ctx h) l
          = proposed_link_congestion_costs h l)"
proof -
  from commit_noc_costs_closed[of K ctx h] obtain A C where
    c: "commit_noc_costs K ctx h =
     h\<lparr>traffic_flow_costs := A,
       proposed_traffic_flow_costs :=
         (\<lambda>f. if f \<in> set (affected_traffic_flows h) then invalid_flow_cost K
              else proposed_traffic_flow_costs h f),
       link_congestion_costs := C,
       proposed_link_congestion_costs :=
         (\<lambda>l. if l \<in> set (affected_noc_links h) then INVALID_NOC_COST_TERM K
              else proposed_link_congestion_costs h l)\<rparr>"
    and A: "\<forall>f. f \<notin> set (affected_traffic_flows h) \<longrightarrow> A f = traffic_flow_costs h f"
    and C: "\<forall>l. l \<notin> set (affected_noc_links h) \<longrightarrow> C l = link_congestion_costs h l"
    by blast
  show ?thesis
    unfolding c using A C by simp
qed

theorem commit_frame_witness:
  "traffic_flow_routes (commit_noc_costs ex_constants ex_ctx ex_evaluated) 0 = [3, 2]
 \<and> traffic_flow_routes_backup (commit_noc_costs ex_constants ex_ctx ex_evaluated) 0 = [0]
 \<and> link_bandwidth_usages (commit_noc_costs ex_constants ex_ctx ex_evaluated) 2 = 5
 \<and> flow_latency (traffic_flow_costs (commit_noc_costs ex_constants ex_ctx ex_evaluated) 1) = 8
 \<and> flow_latency (proposed_traffic_flow_costs
       (commit_noc_costs ex_constants ex_ctx ex_evaluated) 1) = - 1
 \<and> link_congestion_costs (commit_noc_costs ex_constants ex_ctx ex_evaluated) 1 = 0
 \<and> proposed_link_congestion_costs (commit_noc_costs ex_constants ex_ctx ex_evaluated) 1 = - 1"
  using commit_frame[of ex_constants ex_ctx ex_evaluated]
  by (simp add: ex_evaluated_def ex_handler_def)

text \<open>
  Claim C3, amended.  After a commit that follows an evaluation, the committed
  cost of every flow of \<open>affected_traffic_flows\<close> is the cost that was proposed
  and its proposed slot holds the sentinel in all three terms; likewise the
  committed congestion of every link of \<open>affected_noc_links\<close> is the proposed
  one and its proposed slot holds the sentinel.  The commit leaves the two
  scratch collections as they are; they are emptied at the start of the next
  evaluation, which therefore does not depend on what they held.
\<close>

theorem commit_copies_proposed_costs:
  assumes "find_affected_noc_routers_and_update_noc_costs blocks_affected delta_c ctx h
             = Inr (h', delta_c')"
  shows "(\<forall>f \<in> set (affected_traffic_flows h').
            traffic_flow_costs (commit_noc_costs K ctx h') f = proposed_traffic_flow_costs h' f
          \<and> proposed_traffic_flow_costs (commit_noc_costs K ctx h') f = invalid_flow_cost K)
       \<and> (\<forall>l \<in> set (affected_noc_links h').
            link_congestion_costs (commit_noc_costs K ctx h') l
              = proposed_link_congestion_costs h' l
          \<and> proposed_link_congestion_costs (commit_noc_costs K ctx h') l
              = INVALID_NOC_COST_TERM K)
       \<and> affected_traffic_flows (commit_noc_costs K ctx h') = affected_traffic_flows h'
       \<and> affected_noc_links (commit_noc_costs K ctx h') = affected_noc_links h'
       \<and> find_affected_noc_routers_and_update_noc_costs next_blocks next_delta_c ctx
            (commit_noc_costs K ctx h')
           = find_affected_noc_routers_and_update_noc_costs next_blocks next_delta_c ctx
               ((commit_noc_costs K ctx h')
                  \<lparr>affected_traffic_flows := [], affected_noc_links := []\<rparr>)"
proof -
  from find_affected_result[OF assms] obtain P Q where
    h': "h' = (re_routed ctx blocks_affected h)\<lparr>proposed_traffic_flow_costs := P,
                proposed_link_congestion_costs := Q\<rparr>" by auto
  have d1: "distinct (affected_traffic_flows h')"
    by (simp add: h' re_routed_fields distinct_fresh)
  have d2: "distinct (affected_noc_links h')"
    by (simp add: h' re_routed_fields)
  from commit_noc_costs_closed[of K ctx h'] d1 d2 obtain A C where
    c: "commit_noc_costs K ctx h' =
     h'\<lparr>traffic_flow_costs := A,
       proposed_traffic_flow_costs :=
         (\<lambda>f. if f \<in> set (affected_traffic_flows h') then invalid_flow_cost K
              else proposed_traffic_flow_costs h' f),
       link_congestion_costs := C,
       proposed_link_congestion_costs :=
         (\<lambda>l. if l \<in> set (affected_noc_links h') then INVALID_NOC_COST_TERM K
              else proposed_link_congestion_costs h' l)\<rparr>"
    and A: "\<forall>f \<in> set (affected_traffic_flows h'). A f = proposed_traffic_flow_costs h' f"
    and C: "\<forall>l \<in> set (affected_noc_links h'). C l = proposed_link_congestion_costs h' l"
    by blast
  have clear: "find_affected_noc_routers_and_update_noc_costs next_blocks next_delta_c ctx g
           = find_affected_noc_routers_and_update_noc_costs next_blocks next_delta_c ctx
               (g\<lparr>affected_traffic_flows := [], affected_noc_links := []\<rparr>)" for g
    by (simp add: find_affected_noc_routers_and_update_noc_costs_def)
  show ?thesis
    using A C clear[of "commit_noc_costs K ctx h'"] unfolding c by simp
qed

theorem commit_copies_proposed_costs_witness:
  "find_affected_noc_routers_and_update_noc_costs ex_blocks ex_delta ex_ctx ex_handler
     = Inr (ex_evaluated, ex_delta_evaluated)
 \<and> traffic_flow_costs (commit_noc_costs ex_constants ex_ctx ex_evaluated) 0
     = \<lparr>flow_aggregate_bandwidth = 20, flow_latency = 14, flow_latency_overrun = 4\<rparr>
 \<and> proposed_traffic_flow_costs (commit_noc_costs ex_constants ex_ctx ex_evaluated) 0
     = \<lparr>flow_aggregate_bandwidth = - 1, flow_latency = - 1, flow_latency_overrun = - 1\<rparr>
 \<and> link_congestion_costs (commit_noc_costs ex_constants ex_ctx ex_evaluated) 2 = 1 / 4
 \<and> proposed_link_congestion_costs (commit_noc_costs ex_constants ex_ctx ex_evaluated) 2 = - 1"
  using commit_copies_proposed_costs[OF ex_evaluation, of ex_constants] ex_evaluation
  by (simp add: ex_evaluated_def ex_constants_def invalid_flow_cost_def)

text \<open>
  The claim as stated fails: after evaluation and commit of the example the
  scratch collections still hold the affected flow and the affected links.
\<close>

theorem commit_keeps_scratch_sets:
  "find_affected_noc_routers_and_update_noc_costs ex_blocks ex_delta ex_ctx ex_handler
     = Inr (ex_evaluated, ex_delta_evaluated)
 \<and> affected_traffic_flows (commit_noc_costs ex_constants ex_ctx ex_evaluated) = [0]
 \<and> affected_noc_links (commit_noc_costs ex_constants ex_ctx ex_evaluated) = [0, 2, 3]"
  by (simp add: ex_evaluation)
     (simp add: commit_noc_costs_def ex_evaluated_def Let_def get_noc_links_of_def
        commit_traffic_flow_cost_def commit_link_congestion_cost_def)

section \<open>Normalisation factors\<close>

text \<open>
  Claim C6, amended.  After \<open>update_noc_normalization_factors\<close> the factors of the
  latency overrun and of the congestion are the minimum of \<open>1 / term\<close> and the
  bound when the term is positive, and the bound when the term is zero or
  negative.  The factors of the aggregate bandwidth and of the latency are
  computed without a guard: the minimum of \<open>1 / term\<close> and the bound for every
  term other than zero (so \<open>1 / term\<close>, a negative value, for a negative term),
  and the bound for a zero term, whose quotient is plus infinity.  The cost
  terms themselves are unchanged.
\<close>

theorem normalization_factors:
  "aggregate_bandwidth (noc_cost_norm_factors (update_noc_normalization_factors K costs))
     = (if aggregate_bandwidth (noc_cost_terms costs) = 0
        then MAX_INV_NOC_AGGREGATE_BANDWIDTH_COST K
        else min (1 / aggregate_bandwidth (noc_cost_terms costs))
               (MAX_INV_NOC_AGGREGATE_BANDWIDTH_COST K))
 \<and> latency (noc_cost_norm_factors (update_noc_normalization_factors K costs))
     = (if latency (noc_cost_terms costs) = 0
        then MAX_INV_NOC_LATENCY_COST K
        else min (1 / latency (noc_cost_terms costs)) (MAX_INV_NOC_LATENCY_COST K))
 \<and> latency_overrun (noc_cost_norm_factors (update_noc_normalization_factors K costs))
     = (if latency_overrun (noc_cost_terms costs) > 0
        then min (1 / latency_overrun (noc_cost_terms costs)) (MAX_INV_NOC_LATENCY_COST K)
        else MAX_INV_NOC_LATENCY_COST K)
 \<and> congestion (noc_cost_norm_factors (update_noc_normalization_factors K costs))
     = (if congestion (noc_cost_terms costs) > 0
        then min (1 / congestion (noc_cost_terms costs)) (MAX_INV_NOC_CONGESTION_COST K)
        else MAX_INV_NOC_CONGESTION_COST K)
 \<and> noc_cost_terms (update_noc_normalization_factors K costs) = noc_cost_terms costs"
  by (simp add: update_noc_normalization_factors_def Let_def ieee_one_over_def
      std_min_quotient_def std_min_def min_def)

text \<open>
  The claim as stated fails for a negative aggregate bandwidth term: the factor
  is \<open>1 / term\<close> and not the bound.
\<close>

theorem normalization_factor_of_negative_term:
  "aggregate_bandwidth (noc_cost_terms ex_costs) \<le> 0
 \<and> MAX_INV_NOC_AGGREGATE_BANDWIDTH_COST ex_constants = 1
 \<and> aggregate_bandwidth (noc_cost_norm_factors
       (update_noc_normalization_factors ex_constants ex_costs)) = - 1 / 2"
  by (simp add: update_noc_normalization_factors_def Let_def ieee_one_over_def
      std_min_quotient_def std_min_def ex_costs_def ex_constants_def)

section \<open>The router-swap proposer\<close>

text \<open>
  Claim C8, amended.  \<open>propose_router_swap\<close> returns \<open>ABORT\<close> when the netlist has
  no router clusters, when the selected router cluster is fixed, when no
  destination is found, and when the move would leave the floorplan region.  In
  the first three cases no move is produced: \<open>blocks_affected\<close> is returned as it
  was passed.  In the last case \<open>ABORT\<close> is returned after \<open>create_move\<close> has
  recorded the move: \<open>blocks_affected\<close> is returned as \<open>create_move\<close> filled it, and
  the outcome of \<open>create_move\<close> is discarded.
\<close>

theorem propose_router_swap_aborts:
  "(get_router_clusters_in_netlist (noc_traffic_flows_storage ctx) = [] \<longrightarrow>
      propose_router_swap blocks_affected rlim blk_loc_registry place_macros rng env ctx
        = Inr (ABORT, blocks_affected, rng))
 \<and> (get_router_clusters_in_netlist (noc_traffic_flows_storage ctx) \<noteq> []
      \<and> irand env rng
           (int (length (get_router_clusters_in_netlist (noc_traffic_flows_storage ctx))) - 1)
          = (i, rng1)
      \<and> 0 \<le> i
      \<and> i < int (length (get_router_clusters_in_netlist (noc_traffic_flows_storage ctx)))
      \<and> is_fixed (block_locs blk_loc_registry
            (get_router_clusters_in_netlist (noc_traffic_flows_storage ctx) ! nat i)) \<longrightarrow>
      propose_router_swap blocks_affected rlim blk_loc_registry place_macros rng env ctx
        = Inr (ABORT, blocks_affected, rng1))
 \<and> (select_random_router_cluster (block_locs blk_loc_registry) rng env ctx
        = Inr (Some (b_from, from_loc, cluster_from_type), rng1')
      \<and> find_to_loc_uniform env cluster_from_type rlim from_loc
           ((default_t_pl_loc env)\<lparr>loc_layer := loc_layer from_loc\<rparr>) b_from
           blk_loc_registry rng1' = (False, to_loc, rng2) \<longrightarrow>
      propose_router_swap blocks_affected rlim blk_loc_registry place_macros rng env ctx
        = Inr (ABORT, blocks_affected, rng2))
 \<and> (select_random_router_cluster (block_locs blk_loc_registry) rng env ctx
        = Inr (Some (b_from, from_loc, cluster_from_type), rng1')
      \<and> find_to_loc_uniform env cluster_from_type rlim from_loc
           ((default_t_pl_loc env)\<lparr>loc_layer := loc_layer from_loc\<rparr>) b_from
           blk_loc_registry rng1' = (True, to_loc, rng2)
      \<and> create_move env blocks_affected b_from to_loc blk_loc_registry place_macros
           = (create_move_outcome, blocks_affected')
      \<and> \<not> floorplan_legal env blocks_affected' \<longrightarrow>
      propose_router_swap blocks_affected rlim blk_loc_registry place_macros rng env ctx
        = Inr (ABORT, blocks_affected', rng2))"
  by (simp add: propose_router_swap_def select_random_router_cluster_def Let_def)

theorem propose_router_swap_aborts_witness:
  "propose_router_swap ex_no_blocks 1 ex_registry () 0 ex_env ex_ctx_no_routers
     = Inr (ABORT, ex_no_blocks, 0)
 \<and> propose_router_swap ex_no_blocks 1 ex_registry () 1 ex_env ex_ctx
     = Inr (ABORT, ex_no_blocks, 2)
 \<and> propose_router_swap ex_no_blocks 0 ex_free_registry () 0 ex_env ex_ctx
     = Inr (ABORT, ex_no_blocks, 2)
 \<and> propose_router_swap ex_no_blocks 1 ex_registry () 0 ex_env ex_ctx
     = Inr (ABORT, \<lparr>moved_blocks = [\<lparr>block_num = 0, old_loc = ex_loc 2, new_loc = ex_loc 3\<rparr>]\<rparr>,
            2)"
  using
    propose_router_swap_aborts[where ctx = ex_ctx_no_routers and blocks_affected = ex_no_blocks and rlim = 1
        and blk_loc_registry = ex_registry and place_macros = "()" and rng = 0 and env = ex_env]
    propose_router_swap_aborts[where ctx = ex_ctx and blocks_affected = ex_no_blocks and rlim = 1
        and blk_loc_registry = ex_registry and place_macros = "()" and rng = 1 and env = ex_env
        and i = 1 and ?rng1.0 = 2]
    propose_router_swap_aborts[where ctx = ex_ctx and blocks_affected = ex_no_blocks and rlim = 0
        and blk_loc_registry = ex_free_registry and place_macros = "()" and rng = 0
        and env = ex_env and b_from = 0 and from_loc = "ex_loc 0" and cluster_from_type = 0
        and rng1' = 1 and ?rng2.0 = 2
        and to_loc = "\<lparr>loc_x = 1, loc_y = 0, loc_sub_tile = 0, loc_layer = 0\<rparr>"]
    propose_router_swap_aborts[where ctx = ex_ctx and blocks_affected = ex_no_blocks and rlim = 1
        and blk_loc_registry = ex_registry and place_macros = "()" and rng = 0
        and env = ex_env and b_from = 0 and from_loc = "ex_loc 2" and cluster_from_type = 0
        and rng1' = 1 and ?rng2.0 = 2 and to_loc = "ex_loc 3"
        and create_move_outcome = VALID
        and blocks_affected' =
          "\<lparr>moved_blocks = [\<lparr>block_num = 0, old_loc = ex_loc 2, new_loc = ex_loc 3\<rparr>]\<rparr>"]
  by (simp add: ex_env_def ex_registry_def ex_free_registry_def ex_no_blocks_def
      ex_ctx_no_routers_def ex_ctx_def ex_storage_def ex_loc_def
      select_random_router_cluster_def Let_def)

text \<open>
  The claim as stated fails in the floorplan case.  The proposer is called with
  no recorded move; cluster 0, on router 2, is selected and the destination
  \<open>x = 3\<close> is outside the floorplan region \<open>x \<le> 2\<close>.  The result is \<open>ABORT\<close> and
  \<open>blocks_affected\<close> holds the move of cluster 0 that \<open>create_move\<close> recorded.
\<close>

theorem propose_router_swap_abort_keeps_recorded_move:
  "moved_blocks ex_no_blocks = []
 \<and> propose_router_swap ex_no_blocks 1 ex_registry () 0 ex_env ex_ctx
     = Inr (ABORT, \<lparr>moved_blocks = [\<lparr>block_num = 0, old_loc = ex_loc 2, new_loc = ex_loc 3\<rparr>]\<rparr>,
            2)"
  by (simp add: propose_router_swap_def select_random_router_cluster_def Let_def
      ex_env_def ex_registry_def ex_no_blocks_def ex_ctx_def ex_storage_def ex_loc_def)

section \<open>Initial routing\<close>








lemma adopted_route_usage_irrelevant:
  "adopted_route seeds ctx (h\<lparr>link_bandwidth_usages := U\<rparr>) f = adopted_route seeds ctx h f"
  by (simp add: adopted_route_def)









end
